theory Spec2Isabelle
  imports Complex_Main "HOL-Library.AList"
begin

section \<open>Python primitives used by the agents\<close>

text \<open>
  Conventions of the embedding.
  \<^item> A Python \<open>float\<close> is modelled as an exact \<open>real\<close>: rounding, infinities and NaN are
    not modelled. Python \<open>int\<close> is \<open>int\<close>.
  \<^item> A function that can raise returns \<open>error + 'a\<close> (\<open>Inl\<close> is the exception).
  \<^item> A \<open>dict\<close> is an association list in insertion order (Python dictionaries iterate in
    insertion order); \<open>d[k] = v\<close> is \<open>AList.update\<close>, which overwrites in place or appends.
  \<^item> Mutation of \<open>self\<close> is explicit state passing: a method takes the agent record and
    returns the new one next to its result.
  \<^item> Names follow the source; a leading underscore of a Python name is dropped, and the
    fields of the three agent classes that share a name carry the prefix of their class.
\<close>

datatype error = AssertionError | ZeroDivisionError | KeyError | RuntimeError

text \<open>\<open>int(x)\<close> on a float truncates towards zero.\<close>

definition py_int :: "real \<Rightarrow> int" where
  "py_int x = (if x \<ge> 0 then \<lfloor>x\<rfloor> else \<lceil>x\<rceil>)"

text \<open>\<open>a / b\<close> on numbers raises \<open>ZeroDivisionError\<close> when \<open>b\<close> is zero.\<close>

definition py_div :: "real \<Rightarrow> real \<Rightarrow> error + real" where
  "py_div a b = (if b = 0 then Inl ZeroDivisionError else Inr (a / b))"

type_synonym ('k, 'v) dict = "('k \<times> 'v) list"

definition dict_keys :: "('k, 'v) dict \<Rightarrow> 'k list" where
  "dict_keys d = map fst d"

definition dict_values :: "('k, 'v) dict \<Rightarrow> 'v list" where
  "dict_values d = map snd d"

definition dict_set :: "'k \<Rightarrow> 'v \<Rightarrow> ('k, 'v) dict \<Rightarrow> ('k, 'v) dict" where
  "dict_set k v d = AList.update k v d"

text \<open>\<open>del d[k]\<close> raises \<open>KeyError\<close> when the key is absent.\<close>

definition dict_del :: "'k \<Rightarrow> ('k, 'v) dict \<Rightarrow> error + ('k, 'v) dict" where
  "dict_del k d = (if k \<in> set (dict_keys d) then Inr (AList.delete k d) else Inl KeyError)"

text \<open>The keys of a Python dictionary are unique; this is the representation invariant.\<close>

definition dict_ok :: "('k, 'v) dict \<Rightarrow> bool" where
  "dict_ok d = distinct (dict_keys d)"

section \<open>Data model: views, intents, feedback\<close>

text \<open>
  Modelled from the spec: the modules \<open>environment.views\<close>, \<open>environment.models.order\<close>,
  \<open>agents.models\<close> and \<open>agents.intents\<close> are imported by the sources but are not among
  them. The types below carry the fields the agents and the engine read or construct,
  with the alternatives the specification lists (lifecycle \<open>WORKING | DONE\<close>, end reason
  \<open>FILLED | CANCELLED | other\<close>).
\<close>

datatype Side = BUY | SELL

datatype OrderType = LIMIT | MARKET

datatype OrderLifecycle = WORKING | DONE

datatype OrderEndReasons = FILLED | CANCELLED | OTHER_REASON

record OrderView =
  order_id :: int
  side :: Side
  lifecycle :: OrderLifecycle
  end_reason :: "OrderEndReasons option"
  price :: "real option"

record DepositView =
  deposit_id :: int
  maturity_macro_tick :: int

record AccountView =
  cash :: real
  shares :: int

record AgentConstants =
  simulation_macro_tick :: int
  simulation_micro_tick :: int
  fee_rate :: real

text \<open>\<open>L1_bids\<close> and \<open>L1_asks\<close> are \<open>(price, size, #orders)\<close> or \<open>None\<close>.\<close>

record MarketDataView =
  mid_price :: "real option"
  micro_price :: "real option"
  last_traded_price :: "real option"
  L1_bids :: "(real \<times> int \<times> int) option"
  L1_asks :: "(real \<times> int \<times> int) option"

record EconomyInsightView =
  tv_interval :: "real \<times> real"
  deposit_rates :: "(int, real) dict"

record AgentView =
  agent_id :: int
  timestamp :: real
  macro_tick :: int
  micro_tick :: int
  market_data_view :: "MarketDataView option"
  economy_insight_view :: "EconomyInsightView option"

datatype AgentIntent =
    PlaceOrderIntent int Side OrderType int "real option"
  | CancelOrderIntent int int
  | CreateDepositIntent int real int

text \<open>The \<open>intent_id\<close> field, which every intent has.\<close>

fun intent_id_of :: "AgentIntent \<Rightarrow> int" where
  "intent_id_of (PlaceOrderIntent i _ _ _ _) = i"
| "intent_id_of (CancelOrderIntent i _) = i"
| "intent_id_of (CreateDepositIntent i _ _) = i"

record AgentFeedback =
  fb_agent_id :: int
  order_results :: "(int, OrderView option) dict"
  deposit_results :: "(int, DepositView option) dict"

section \<open>MomentumTrader\<close>

record MomentumTrader =
  mt_agent_id :: int
  mt_account_view :: AccountView
  mt_constants :: AgentConstants
  momentum_window :: int
  entry_threshold :: real
  exit_threshold :: real
  aggressiveness :: real
  max_exposure_fraction :: real
  directional_bias :: real
  liquidity_baseline :: int
  price_history :: "real list"
  active_orders :: "(int, OrderView) dict"
  mt_intent_id :: int

text \<open>The property \<open>intent_id\<close>: returns the counter and increments it.\<close>

definition mt_next_intent_id :: "MomentumTrader \<Rightarrow> int \<times> MomentumTrader" where
  "mt_next_intent_id st = (mt_intent_id st, st\<lparr>mt_intent_id := mt_intent_id st + 1\<rparr>)"

definition mt_get_current_price :: "AgentView \<Rightarrow> error + real option" where
  "mt_get_current_price view =
     (case market_data_view view of
        None \<Rightarrow> Inl AssertionError
      | Some md \<Rightarrow>
          (case last_traded_price md of
             Some p \<Rightarrow> Inr (Some p)
           | None \<Rightarrow>
               (case mid_price md of
                  Some p \<Rightarrow> Inr (Some p)
                | None \<Rightarrow>
                    (case micro_price md of
                       Some p \<Rightarrow> Inr (Some p)
                     | None \<Rightarrow> Inr None))))"

definition update_price_history :: "MomentumTrader \<Rightarrow> AgentView \<Rightarrow> error + MomentumTrader" where
  "update_price_history st view =
     (case mt_get_current_price view of
        Inl e \<Rightarrow> Inl e
      | Inr None \<Rightarrow> Inr st
      | Inr (Some current_price) \<Rightarrow>
          (let h = price_history st @ [current_price]
           in Inr (st\<lparr>price_history :=
                      (if int (length h) > momentum_window st then tl h else h)\<rparr>)))"

text \<open>
  The loop \<open>for i in range(1, len(price_history))\<close>: the list argument is the history
  from index \<open>i - 1\<close> on, the pair is \<open>(weighted_return, total_weight)\<close>.
\<close>

fun momentum_loop :: "nat \<Rightarrow> real list \<Rightarrow> real \<times> real \<Rightarrow> real \<times> real" where
  "momentum_loop i (price_prev # price_curr # rest) (weighted_return, total_weight) =
     momentum_loop (i + 1) (price_curr # rest)
       (if price_prev > 0
        then (weighted_return + ((price_curr - price_prev) / price_prev) * real i,
              total_weight + real i)
        else (weighted_return, total_weight))"
| "momentum_loop i [p] acc = acc"
| "momentum_loop i [] acc = acc"

definition calculate_momentum_signal :: "MomentumTrader \<Rightarrow> real" where
  "calculate_momentum_signal st =
     (if length (price_history st) < 2 then 0
      else (case momentum_loop 1 (price_history st) (0, 0) of
              (weighted_return, total_weight) \<Rightarrow>
                if total_weight > 0 then weighted_return / total_weight else 0))"

definition apply_directional_bias :: "MomentumTrader \<Rightarrow> real \<Rightarrow> real" where
  "apply_directional_bias st momentum = momentum + directional_bias st"

definition evaluate_signal :: "MomentumTrader \<Rightarrow> real \<Rightarrow> string" where
  "evaluate_signal st biased_momentum =
     (if biased_momentum > entry_threshold st then ''ENTER_LONG''
      else if biased_momentum < - entry_threshold st then ''ENTER_SHORT''
      else if \<bar>biased_momentum\<bar> < exit_threshold st then ''EXIT''
      else ''HOLD'')"

definition calculate_liquidity_amplifier :: "MomentumTrader \<Rightarrow> AgentView \<Rightarrow> error + real" where
  "calculate_liquidity_amplifier st view =
     (case market_data_view view of
        None \<Rightarrow> Inl AssertionError
      | Some md \<Rightarrow>
          (let total_liquidity =
                 (case L1_bids md of None \<Rightarrow> 0 | Some (_, sz, _) \<Rightarrow> sz)
               + (case L1_asks md of None \<Rightarrow> 0 | Some (_, sz, _) \<Rightarrow> sz)
           in if total_liquidity = 0 then Inr 1
              else (case py_div (real_of_int total_liquidity) (real_of_int (liquidity_baseline st)) of
                      Inl e \<Rightarrow> Inl e
                    | Inr liquidity_ratio \<Rightarrow> Inr (1 / max 0.5 (min 2 liquidity_ratio)))))"

definition enter_long :: "MomentumTrader \<Rightarrow> AgentView \<Rightarrow> error + (AgentIntent list \<times> MomentumTrader)" where
  "enter_long st view =
     (let cash = cash (mt_account_view st); shares = shares (mt_account_view st) in
      case mt_get_current_price view of
        Inl e \<Rightarrow> Inl e
      | Inr None \<Rightarrow> Inr ([], st)
      | Inr (Some current_price) \<Rightarrow>
          (let total_wealth = cash + real_of_int shares * current_price in
           case calculate_liquidity_amplifier st view of
             Inl e \<Rightarrow> Inl e
           | Inr liquidity_amp \<Rightarrow>
               (let effective_aggressiveness = aggressiveness st * liquidity_amp;
                    target_value = total_wealth * max_exposure_fraction st * effective_aggressiveness in
                case py_div target_value current_price of
                  Inl e \<Rightarrow> Inl e
                | Inr q \<Rightarrow>
                    (let target_shares = py_int q;
                         additional_shares = target_shares - shares in
                     if additional_shares \<le> 0 then Inr ([], st)
                     else
                       (let cost = real_of_int additional_shares * current_price
                                     * (1 + fee_rate (mt_constants st)) in
                        case (if cost > cash
                              then (case py_div cash (current_price * (1 + fee_rate (mt_constants st))) of
                                      Inl e \<Rightarrow> Inl e
                                    | Inr a \<Rightarrow> Inr (py_int a))
                              else Inr additional_shares) of
                          Inl e \<Rightarrow> Inl e
                        | Inr additional_shares' \<Rightarrow>
                            if additional_shares' \<le> 0 then Inr ([], st)
                            else (case mt_next_intent_id st of
                                    (iid, st') \<Rightarrow>
                                      Inr ([PlaceOrderIntent iid BUY MARKET additional_shares' None], st')))))))"

definition enter_short :: "MomentumTrader \<Rightarrow> AgentView \<Rightarrow> error + (AgentIntent list \<times> MomentumTrader)" where
  "enter_short st view =
     (let shares = shares (mt_account_view st) in
      if shares \<le> 0 then Inr ([], st)
      else
        (case mt_get_current_price view of
           Inl e \<Rightarrow> Inl e
         | Inr None \<Rightarrow> Inr ([], st)
         | Inr (Some current_price) \<Rightarrow>
             (case calculate_liquidity_amplifier st view of
                Inl e \<Rightarrow> Inl e
              | Inr liquidity_amp \<Rightarrow>
                  (let effective_aggressiveness = aggressiveness st * liquidity_amp;
                       sell_quantity = min (py_int (real_of_int shares * effective_aggressiveness)) shares in
                   if sell_quantity \<le> 0 then Inr ([], st)
                   else (case mt_next_intent_id st of
                           (iid, st') \<Rightarrow>
                             Inr ([PlaceOrderIntent iid SELL MARKET sell_quantity None], st'))))))"

definition exit_position :: "MomentumTrader \<Rightarrow> AgentView \<Rightarrow> error + (AgentIntent list \<times> MomentumTrader)" where
  "exit_position st view =
     (let shares = shares (mt_account_view st) in
      if shares > 0
      then (case mt_next_intent_id st of
              (iid, st') \<Rightarrow> Inr ([PlaceOrderIntent iid SELL MARKET shares None], st'))
      else Inr ([], st))"

definition act_on_signal :: "MomentumTrader \<Rightarrow> string \<Rightarrow> AgentView \<Rightarrow> error + (AgentIntent list \<times> MomentumTrader)" where
  "act_on_signal st signal view =
     (if signal = ''ENTER_LONG'' then enter_long st view
      else if signal = ''ENTER_SHORT'' then enter_short st view
      else if signal = ''EXIT'' then exit_position st view
      else Inr ([], st))"

definition mt_decide :: "MomentumTrader \<Rightarrow> AgentView \<Rightarrow> error + (AgentIntent list \<times> MomentumTrader)" where
  "mt_decide st view =
     (if agent_id view \<noteq> mt_agent_id st then Inl AssertionError
      else if market_data_view view = None then Inl AssertionError
      else
        (case update_price_history st view of
           Inl e \<Rightarrow> Inl e
         | Inr st1 \<Rightarrow>
             (let momentum = calculate_momentum_signal st1;
                  biased_momentum = apply_directional_bias st1 momentum;
                  signal = evaluate_signal st1 biased_momentum
              in act_on_signal st1 signal view)))"

text \<open>
  The cleanup loop of the momentum trader: it walks a snapshot of the items and deletes
  the done ones from the live dictionary.
\<close>

fun mt_cleanup_loop :: "(int, OrderView) dict \<Rightarrow> (int, OrderView) dict \<Rightarrow> error + (int, OrderView) dict" where
  "mt_cleanup_loop [] d = Inr d"
| "mt_cleanup_loop ((oid, order_view) # rest) d =
     (if lifecycle order_view = DONE
      then (case dict_del oid d of Inl e \<Rightarrow> Inl e | Inr d' \<Rightarrow> mt_cleanup_loop rest d')
      else mt_cleanup_loop rest d)"

definition mt_cleanup_done_orders :: "MomentumTrader \<Rightarrow> error + MomentumTrader" where
  "mt_cleanup_done_orders st =
     (case mt_cleanup_loop (active_orders st) (active_orders st) of
        Inl e \<Rightarrow> Inl e
      | Inr d \<Rightarrow> Inr (st\<lparr>active_orders := d\<rparr>))"

text \<open>The loop of \<open>update\<close> over \<open>feedback.order_results.items()\<close>.\<close>

fun store_order_results :: "(int, OrderView option) dict \<Rightarrow> (int, OrderView) dict \<Rightarrow> (int, OrderView) dict" where
  "store_order_results [] d = d"
| "store_order_results ((_, None) # rest) d = store_order_results rest d"
| "store_order_results ((_, Some order_view) # rest) d =
     store_order_results rest (dict_set (order_id order_view) order_view d)"

definition mt_update :: "MomentumTrader \<Rightarrow> AgentFeedback \<Rightarrow> error + MomentumTrader" where
  "mt_update st feedback =
     mt_cleanup_done_orders
       (st\<lparr>active_orders := store_order_results (order_results feedback) (active_orders st)\<rparr>)"

section \<open>MarketMaker\<close>

text \<open>The layer tags \<open>'SURVIVE'\<close>, \<open>'STABILIZE'\<close>, \<open>'PROVIDE'\<close> are Python strings.\<close>

record MarketMaker =
  mm_agent_id :: int
  mm_account_view :: AccountView
  mm_constants :: AgentConstants
  target_inventory_fraction :: real
  risk_lower_bound :: real
  risk_upper_bound :: real
  stabilization_tolerance :: real
  skew_factor :: int
  spread_size :: int
  order_size :: int
  wait_time :: int
  active_bids :: "(int, OrderView) dict"
  active_asks :: "(int, OrderView) dict"
  mm_last_known_price :: "real option"
  last_quote_tick :: "int option"
  current_micro_tick :: int
  last_mid_price :: "real option"
  last_inventory_ratio :: "real option"
  layer_changed :: bool
  order_filled_this_tick :: bool
  last_layer :: string
  current_global_tick :: int
  last_quote_global_tick :: "int option"
  mm_intent_id :: int

definition mm_next_intent_id :: "MarketMaker \<Rightarrow> int \<times> MarketMaker" where
  "mm_next_intent_id st = (mm_intent_id st, st\<lparr>mm_intent_id := mm_intent_id st + 1\<rparr>)"

definition calculate_inventory_ratio :: "MarketMaker \<Rightarrow> real" where
  "calculate_inventory_ratio st =
     (let cash = cash (mm_account_view st); shares = shares (mm_account_view st) in
      case mm_last_known_price st of
        None \<Rightarrow> target_inventory_fraction st
      | Some p \<Rightarrow>
          (let total_wealth = cash + real_of_int shares * p in
           if total_wealth \<le> 0 then target_inventory_fraction st
           else cash / total_wealth))"

definition should_survive :: "MarketMaker \<Rightarrow> bool" where
  "should_survive st =
     (let inventory_ratio = calculate_inventory_ratio st in
      if inventory_ratio < risk_lower_bound st then True
      else if inventory_ratio > risk_upper_bound st then True
      else False)"

definition should_stabilize :: "MarketMaker \<Rightarrow> bool" where
  "should_stabilize st =
     (let inventory_ratio = calculate_inventory_ratio st;
          deviation = \<bar>inventory_ratio - target_inventory_fraction st\<bar>
      in deviation > stabilization_tolerance st)"

definition determine_current_layer :: "MarketMaker \<Rightarrow> string" where
  "determine_current_layer st =
     (if should_survive st then ''SURVIVE''
      else if should_stabilize st then ''STABILIZE''
      else ''PROVIDE'')"

definition estimate_price :: "MarketMaker \<Rightarrow> AgentView \<Rightarrow> error + (real option \<times> MarketMaker)" where
  "estimate_price st view =
     (case market_data_view view of
        None \<Rightarrow> Inl AssertionError
      | Some md \<Rightarrow>
          (case mid_price md of
             Some p \<Rightarrow> Inr (Some p, st\<lparr>mm_last_known_price := Some p\<rparr>)
           | None \<Rightarrow>
               (case micro_price md of
                  Some p \<Rightarrow> Inr (Some p, st\<lparr>mm_last_known_price := Some p\<rparr>)
                | None \<Rightarrow>
                    (case last_traded_price md of
                       Some p \<Rightarrow> Inr (Some p, st\<lparr>mm_last_known_price := Some p\<rparr>)
                     | None \<Rightarrow>
                         (case mm_last_known_price st of
                            Some p \<Rightarrow> Inr (Some p, st)
                          | None \<Rightarrow>
                              (case economy_insight_view view of
                                 None \<Rightarrow> Inl AssertionError
                               | Some economy \<Rightarrow>
                                   (case tv_interval economy of
                                      (tv_l, tv_u) \<Rightarrow> Inr (Some ((tv_l + tv_u) / 2), st))))))))"

definition is_quote_equivalent :: "OrderView \<Rightarrow> real \<Rightarrow> Side \<Rightarrow> bool" where
  "is_quote_equivalent order_view target_price target_side =
     (if lifecycle order_view \<noteq> WORKING then False
      else if side order_view \<noteq> target_side then False
      else (case price order_view of
              Some p \<Rightarrow> \<bar>p - target_price\<bar> \<le> 1
            | None \<Rightarrow> False))"

definition has_equivalent_working_order :: "MarketMaker \<Rightarrow> Side \<Rightarrow> real \<Rightarrow> bool" where
  "has_equivalent_working_order st sd target_price =
     (let orders = (if sd = BUY then active_bids st else active_asks st)
      in list_ex (\<lambda>order_view. is_quote_equivalent order_view target_price sd) (dict_values orders))"

text \<open>
  The cancel loops of the market maker all have the shape
  \<^verbatim>\<open>for order_id, order_view in list(d.items()):
      if order_view.lifecycle == WORKING [and not equivalent]:
          intents.append(CancelOrderIntent(intent_id=self.intent_id, order_id=order_id))\<close>
  \<open>cancel_loop keep\<close> is that loop over the snapshot of the items; \<open>keep\<close> is the
  equivalence test that spares an order (constantly false in \<open>cancel_all_orders\<close>).
\<close>

fun cancel_loop :: "(OrderView \<Rightarrow> bool) \<Rightarrow> (int, OrderView) dict \<Rightarrow> MarketMaker
                      \<Rightarrow> AgentIntent list \<times> MarketMaker" where
  "cancel_loop keep [] st = ([], st)"
| "cancel_loop keep ((oid, order_view) # rest) st =
     (if lifecycle order_view = WORKING \<and> \<not> keep order_view
      then (case mm_next_intent_id st of
              (iid, st1) \<Rightarrow>
                (case cancel_loop keep rest st1 of
                   (intents, st2) \<Rightarrow> (CancelOrderIntent iid oid # intents, st2)))
      else cancel_loop keep rest st)"

definition cancel_all_orders :: "MarketMaker \<Rightarrow> AgentIntent list \<times> MarketMaker" where
  "cancel_all_orders st =
     (case cancel_loop (\<lambda>_. False) (active_bids st) st of
        (bid_cancels, st1) \<Rightarrow>
          (case cancel_loop (\<lambda>_. False) (active_asks st1) st1 of
             (ask_cancels, st2) \<Rightarrow> (bid_cancels @ ask_cancels, st2)))"

definition cancel_non_equivalent_orders :: "MarketMaker \<Rightarrow> real \<Rightarrow> real \<Rightarrow> AgentIntent list \<times> MarketMaker" where
  "cancel_non_equivalent_orders st bid_price ask_price =
     (case cancel_loop (\<lambda>ov. is_quote_equivalent ov bid_price BUY) (active_bids st) st of
        (bid_cancels, st1) \<Rightarrow>
          (case cancel_loop (\<lambda>ov. is_quote_equivalent ov ask_price SELL) (active_asks st1) st1 of
             (ask_cancels, st2) \<Rightarrow> (bid_cancels @ ask_cancels, st2)))"

definition selective_stabilize_cancel :: "MarketMaker \<Rightarrow> real \<Rightarrow> real \<Rightarrow> real \<Rightarrow> AgentIntent list \<times> MarketMaker" where
  "selective_stabilize_cancel st inventory_ratio target_bid target_ask =
     (if inventory_ratio < target_inventory_fraction st
      then cancel_loop (\<lambda>ov. is_quote_equivalent ov target_bid BUY) (active_bids st) st
      else cancel_loop (\<lambda>ov. is_quote_equivalent ov target_ask SELL) (active_asks st) st)"

definition create_panic_sell_intent :: "MarketMaker \<Rightarrow> AgentView \<Rightarrow> error + (AgentIntent option \<times> MarketMaker)" where
  "create_panic_sell_intent st view =
     (let shares = shares (mm_account_view st) in
      if shares \<le> 0 then Inr (None, st)
      else
        (case estimate_price st view of
           Inl e \<Rightarrow> Inl e
         | Inr (None, st1) \<Rightarrow> Inr (None, st1)
         | Inr (Some mid, st1) \<Rightarrow>
             (let panic_sell_price = max 0.01 (mid - real_of_int (5 * spread_size st1));
                  quantity = min shares (order_size st1 * 3);
                  st2 = st1\<lparr>last_mid_price := Some mid\<rparr>
              in case mm_next_intent_id st2 of
                   (iid, st3) \<Rightarrow>
                     Inr (Some (PlaceOrderIntent iid SELL LIMIT quantity (Some panic_sell_price)), st3))))"

definition create_panic_buy_intent :: "MarketMaker \<Rightarrow> AgentView \<Rightarrow> error + (AgentIntent option \<times> MarketMaker)" where
  "create_panic_buy_intent st view =
     (let cash = cash (mm_account_view st) in
      if cash \<le> 0 then Inr (None, st)
      else
        (case estimate_price st view of
           Inl e \<Rightarrow> Inl e
         | Inr (None, st1) \<Rightarrow> Inr (None, st1)
         | Inr (Some mid, st1) \<Rightarrow>
             (let panic_buy_price = mid + real_of_int (5 * spread_size st1);
                  cost_per_share = panic_buy_price * (1 + fee_rate (mm_constants st1))
              in case py_div cash cost_per_share of
                   Inl e \<Rightarrow> Inl e
                 | Inr q \<Rightarrow>
                     (let max_quantity = py_int q;
                          quantity = min max_quantity (order_size st1 * 3)
                      in if quantity \<le> 0 then Inr (None, st1)
                         else
                           (let st2 = st1\<lparr>last_mid_price := Some mid\<rparr>
                            in case mm_next_intent_id st2 of
                                 (iid, st3) \<Rightarrow>
                                   Inr (Some (PlaceOrderIntent iid BUY LIMIT quantity (Some panic_buy_price)), st3))))))"

definition survive_layer :: "MarketMaker \<Rightarrow> AgentView \<Rightarrow> error + (AgentIntent list \<times> MarketMaker)" where
  "survive_layer st view =
     (case cancel_all_orders st of
        (cancels, st1) \<Rightarrow>
          (let inventory_ratio = calculate_inventory_ratio st1 in
           if inventory_ratio < risk_lower_bound st1
           then (case create_panic_sell_intent st1 view of
                   Inl e \<Rightarrow> Inl e
                 | Inr (None, st2) \<Rightarrow> Inr (cancels, st2)
                 | Inr (Some intent, st2) \<Rightarrow> Inr (cancels @ [intent], st2))
           else if inventory_ratio > risk_upper_bound st1
           then (case create_panic_buy_intent st1 view of
                   Inl e \<Rightarrow> Inl e
                 | Inr (None, st2) \<Rightarrow> Inr (cancels, st2)
                 | Inr (Some intent, st2) \<Rightarrow> Inr (cancels @ [intent], st2))
           else Inr (cancels, st1)))"

definition calculate_skew :: "MarketMaker \<Rightarrow> real \<Rightarrow> real" where
  "calculate_skew st inventory_ratio =
     (let deviation = inventory_ratio - target_inventory_fraction st
      in - deviation * real_of_int (skew_factor st))"

definition calculate_skewed_prices :: "MarketMaker \<Rightarrow> real \<Rightarrow> real \<Rightarrow> real \<times> real" where
  "calculate_skewed_prices st mid skew =
     (let max_shift = real_of_int (spread_size st) / 2;
          skew_direction = (if skew > 0 then 1 else if skew < 0 then - 1 else 0);
          price_shift = skew_direction * min \<bar>skew / 100 * mid\<bar> max_shift;
          shifted_mid = mid + price_shift;
          half_spread = real_of_int (spread_size st) / 2;
          bid_price = shifted_mid - half_spread;
          ask_price = shifted_mid + half_spread;
          fee_per_share = mid * fee_rate (mm_constants st)
      in (max 0.01 (bid_price - fee_per_share), max 0.01 (ask_price + fee_per_share)))"

definition validate_bid_quantity :: "MarketMaker \<Rightarrow> int \<Rightarrow> error + int" where
  "validate_bid_quantity st quantity =
     (if quantity \<le> 0 then Inr 0
      else if cash (mm_account_view st) \<le> 0 then Inr 0
      else (case mm_last_known_price st of
              None \<Rightarrow> Inr 0
            | Some p \<Rightarrow>
                (let cost_per_share = p * (1 + fee_rate (mm_constants st))
                 in case py_div (cash (mm_account_view st)) cost_per_share of
                      Inl e \<Rightarrow> Inl e
                    | Inr q \<Rightarrow> Inr (min quantity (py_int q)))))"

definition validate_ask_quantity :: "MarketMaker \<Rightarrow> int \<Rightarrow> int" where
  "validate_ask_quantity st quantity =
     (if quantity \<le> 0 then 0 else min quantity (shares (mm_account_view st)))"

definition calculate_skewed_quantities :: "MarketMaker \<Rightarrow> real \<Rightarrow> error + (int \<times> int)" where
  "calculate_skewed_quantities st inventory_ratio =
     (let base_quantity = real_of_int (order_size st);
          deviation = \<bar>inventory_ratio - target_inventory_fraction st\<bar>;
          supportive_multiplier = min (2 + deviation * 2) 3;
          risk_multiplier = max (0.5 - deviation) 0.25;
          bid_quantity = (if inventory_ratio > target_inventory_fraction st
                          then py_int (base_quantity * supportive_multiplier)
                          else py_int (base_quantity * risk_multiplier));
          ask_quantity = (if inventory_ratio > target_inventory_fraction st
                          then py_int (base_quantity * risk_multiplier)
                          else py_int (base_quantity * supportive_multiplier))
      in case validate_bid_quantity st bid_quantity of
           Inl e \<Rightarrow> Inl e
         | Inr bid_quantity' \<Rightarrow> Inr (bid_quantity', validate_ask_quantity st ask_quantity))"

text \<open>
  The target prices of the STABILIZE layer: the skewed prices, recentred on the mid
  price when they cross (\<open>if bid_price >= ask_price\<close> in \<open>_stabilize_layer\<close>).
\<close>

definition stabilize_target_prices :: "MarketMaker \<Rightarrow> real \<Rightarrow> real \<Rightarrow> real \<times> real" where
  "stabilize_target_prices st mid skew =
     (case calculate_skewed_prices st mid skew of
        (bid_price, ask_price) \<Rightarrow>
          if bid_price \<ge> ask_price
          then (let spread = max 1 (real_of_int (spread_size st) / 2)
                in (mid - spread, mid + spread))
          else (bid_price, ask_price))"

text \<open>
  \<open>intents.append(PlaceOrderIntent(intent_id=self.intent_id, ...))\<close> under its guard, as
  the quoting layers do it for each side.
\<close>

definition place_if :: "bool \<Rightarrow> Side \<Rightarrow> int \<Rightarrow> real \<Rightarrow> MarketMaker \<Rightarrow> AgentIntent list \<times> MarketMaker" where
  "place_if guard sd quantity target_price st =
     (if guard
      then (case mm_next_intent_id st of
              (iid, st1) \<Rightarrow> ([PlaceOrderIntent iid sd LIMIT quantity (Some target_price)], st1))
      else ([], st))"

definition stabilize_layer :: "MarketMaker \<Rightarrow> AgentView \<Rightarrow> error + (AgentIntent list \<times> MarketMaker)" where
  "stabilize_layer st view =
     (let inventory_ratio = calculate_inventory_ratio st;
          skew = calculate_skew st inventory_ratio
      in case estimate_price st view of
           Inl e \<Rightarrow> Inl e
         | Inr (None, st1) \<Rightarrow> Inr ([], st1)
         | Inr (Some mid, st1) \<Rightarrow>
             (case calculate_skewed_quantities st1 inventory_ratio of
                Inl e \<Rightarrow> Inl e
              | Inr (bid_quantity, ask_quantity) \<Rightarrow>
                  (case stabilize_target_prices st1 mid skew of
                     (bid_price, ask_price) \<Rightarrow>
                       (case selective_stabilize_cancel st1 inventory_ratio bid_price ask_price of
                          (cancels, st2) \<Rightarrow>
                            (let has_equivalent_bid = has_equivalent_working_order st2 BUY bid_price;
                                 has_equivalent_ask = has_equivalent_working_order st2 SELL ask_price
                             in case place_if (\<not> has_equivalent_bid \<and> bid_quantity > 0 \<and> bid_price > 0)
                                       BUY bid_quantity bid_price st2 of
                                  (bids, st3) \<Rightarrow>
                                    (case place_if (\<not> has_equivalent_ask \<and> ask_quantity > 0 \<and> ask_price > 0)
                                            SELL ask_quantity ask_price st3 of
                                       (asks, st4) \<Rightarrow>
                                         Inr (cancels @ bids @ asks,
                                              st4\<lparr>last_mid_price := Some mid\<rparr>)))))))"

definition calculate_provide_prices :: "MarketMaker \<Rightarrow> real \<Rightarrow> real \<times> real" where
  "calculate_provide_prices st mid =
     (let half_spread = real_of_int (spread_size st) / 2;
          bid_price = mid - half_spread;
          ask_price = mid + half_spread;
          total_fee_per_share = 2 * fee_rate (mm_constants st) * mid
      in (max 0.01 (bid_price - total_fee_per_share / 2),
          max 0.01 (ask_price + total_fee_per_share / 2)))"

definition should_refresh_quotes :: "MarketMaker \<Rightarrow> real option \<Rightarrow> bool" where
  "should_refresh_quotes st current_mid_price =
     (if (case last_quote_global_tick st of
            Some t \<Rightarrow> current_global_tick st - t < wait_time st
          | None \<Rightarrow> False) then False
      else if last_quote_global_tick st = None then True
      else if order_filled_this_tick st then True
      else if layer_changed st then True
      else if (case (current_mid_price, last_mid_price st) of
                 (Some c, Some l) \<Rightarrow>
                   (let drift = (if l > 0 then \<bar>c - l\<bar> / l else 0);
                        drift_tolerance = (if l > 0 then real_of_int (spread_size st) / (2 * l) else 0.01)
                    in drift > drift_tolerance)
               | _ \<Rightarrow> False) then True
      else
        (let has_working_bid = list_ex (\<lambda>ov. lifecycle ov = WORKING) (dict_values (active_bids st));
             has_working_ask = list_ex (\<lambda>ov. lifecycle ov = WORKING) (dict_values (active_asks st))
         in if \<not> has_working_bid \<or> \<not> has_working_ask then True else False))"

definition provide_layer :: "MarketMaker \<Rightarrow> AgentView \<Rightarrow> error + (AgentIntent list \<times> MarketMaker)" where
  "provide_layer st view =
     (case estimate_price st view of
        Inl e \<Rightarrow> Inl e
      | Inr (None, st1) \<Rightarrow> Inr ([], st1)
      | Inr (Some mid, st1) \<Rightarrow>
          (case calculate_provide_prices st1 mid of
             (bid_price, ask_price) \<Rightarrow>
               if bid_price \<ge> ask_price then Inr ([], st1)
               else if \<not> should_refresh_quotes st1 (Some mid) then Inr ([], st1)
               else
                 (case cancel_non_equivalent_orders st1 bid_price ask_price of
                    (cancels, st2) \<Rightarrow>
                      (let has_equivalent_bid = has_equivalent_working_order st2 BUY bid_price;
                           has_equivalent_ask = has_equivalent_working_order st2 SELL ask_price
                       in case (if \<not> has_equivalent_bid
                                then (case validate_bid_quantity st2 (order_size st2) of
                                        Inl e \<Rightarrow> Inl e
                                      | Inr bid_quantity \<Rightarrow>
                                          Inr (place_if (bid_quantity > 0) BUY bid_quantity bid_price st2))
                                else Inr ([], st2)) of
                            Inl e \<Rightarrow> Inl e
                          | Inr (bids, st3) \<Rightarrow>
                              (case (if \<not> has_equivalent_ask
                                     then (let ask_quantity = validate_ask_quantity st3 (order_size st3)
                                           in place_if (ask_quantity > 0) SELL ask_quantity ask_price st3)
                                     else ([], st3)) of
                                 (asks, st4) \<Rightarrow>
                                   (let intents = cancels @ bids @ asks
                                    in Inr (intents,
                                            if intents \<noteq> []
                                            then st4\<lparr>last_quote_global_tick := Some (current_global_tick st4),
                                                     last_mid_price := Some mid\<rparr>
                                            else st4)))))))"

definition mm_decide :: "MarketMaker \<Rightarrow> AgentView \<Rightarrow> error + (AgentIntent list \<times> MarketMaker)" where
  "mm_decide st view =
     (if agent_id view \<noteq> mm_agent_id st then Inl AssertionError
      else if market_data_view view = None then Inl AssertionError
      else if economy_insight_view view = None then Inl AssertionError
      else
        (let st1 = st\<lparr>current_micro_tick := micro_tick view,
                       current_global_tick :=
                         macro_tick view * simulation_micro_tick (mm_constants st) + micro_tick view,
                       layer_changed := False\<rparr>;
             current_layer = determine_current_layer st1;
             st2 = (if last_layer st1 \<noteq> current_layer then st1\<lparr>layer_changed := True\<rparr> else st1)
                     \<lparr>last_layer := current_layer\<rparr>;
             new_ratio = calculate_inventory_ratio st2;
             st3 = (case last_inventory_ratio st2 of
                      None \<Rightarrow> st2
                    | Some old_ratio \<Rightarrow>
                        (let old_direction = old_ratio - target_inventory_fraction st2;
                             new_direction = new_ratio - target_inventory_fraction st2
                         in if old_direction * new_direction < 0
                            then st2\<lparr>layer_changed := True\<rparr> else st2))
                     \<lparr>last_inventory_ratio := Some new_ratio\<rparr>
         in if current_layer = ''SURVIVE'' then survive_layer st3 view
            else if current_layer = ''STABILIZE'' then stabilize_layer st3 view
            else provide_layer st3 view))"

text \<open>The loop of \<open>MarketMaker.update\<close> over \<open>feedback.order_results.items()\<close>.\<close>

fun mm_store_order_results :: "(int, OrderView option) dict \<Rightarrow> MarketMaker \<Rightarrow> MarketMaker" where
  "mm_store_order_results [] st = st"
| "mm_store_order_results ((_, None) # rest) st = mm_store_order_results rest st"
| "mm_store_order_results ((_, Some order_view) # rest) st =
     mm_store_order_results rest
       (if side order_view = BUY
        then st\<lparr>active_bids := dict_set (order_id order_view) order_view (active_bids st)\<rparr>
        else st\<lparr>active_asks := dict_set (order_id order_view) order_view (active_asks st)\<rparr>)"

text \<open>
  One loop of \<open>_cleanup_done_orders\<close>: it walks a snapshot of the items, deletes the done
  orders from the live dictionary and raises the flag \<open>order_filled_this_tick\<close> for a
  filled one. The pair is the live dictionary and the flag.
\<close>

fun mm_cleanup_loop :: "(int, OrderView) dict \<Rightarrow> (int, OrderView) dict \<times> bool
                          \<Rightarrow> error + ((int, OrderView) dict \<times> bool)" where
  "mm_cleanup_loop [] acc = Inr acc"
| "mm_cleanup_loop ((oid, order_view) # rest) (d, filled) =
     (if lifecycle order_view = DONE
      then (case dict_del oid d of
              Inl e \<Rightarrow> Inl e
            | Inr d' \<Rightarrow>
                mm_cleanup_loop rest (d', (if end_reason order_view = Some FILLED then True else filled)))
      else mm_cleanup_loop rest (d, filled))"

definition mm_cleanup_done_orders :: "MarketMaker \<Rightarrow> error + MarketMaker" where
  "mm_cleanup_done_orders st =
     (case mm_cleanup_loop (active_bids st) (active_bids st, order_filled_this_tick st) of
        Inl e \<Rightarrow> Inl e
      | Inr (bids, filled1) \<Rightarrow>
          (case mm_cleanup_loop (active_asks st) (active_asks st, filled1) of
             Inl e \<Rightarrow> Inl e
           | Inr (asks, filled2) \<Rightarrow>
               Inr (st\<lparr>active_bids := bids, active_asks := asks, order_filled_this_tick := filled2\<rparr>)))"

definition mm_update :: "MarketMaker \<Rightarrow> AgentFeedback \<Rightarrow> error + MarketMaker" where
  "mm_update st feedback =
     mm_cleanup_done_orders
       (mm_store_order_results (order_results feedback) (st\<lparr>order_filled_this_tick := False\<rparr>))"

section \<open>ValueInvestor\<close>

datatype Intention = WAIT | ACCUMULATE | DISTRIBUTE | PARK_CAPITAL

record ValueInvestor =
  vi_agent_id :: int
  vi_account_view :: AccountView
  vi_constants :: AgentConstants
  initial_optimism :: real
  stubbornness :: real
  belief_update_rate :: real
  mispricing_threshold :: real
  max_position_fraction :: real
  deposit_affinity :: real
  deposit_allocation_fraction :: real
  deposit_horizon_preference :: real
  max_order_size :: int
  patience_discount :: real
  patience_premium :: real
  optimism :: real
  belief :: real
  perceived_pnl :: real
  initial_capital :: real
  current_intention :: Intention
  active_deposits :: "(int, DepositView) dict"
  pending_orders :: "(int, OrderView) dict"
  vi_last_known_price :: "real option"
  vi_intent_id :: int

definition vi_next_intent_id :: "ValueInvestor \<Rightarrow> int \<times> ValueInvestor" where
  "vi_next_intent_id st = (vi_intent_id st, st\<lparr>vi_intent_id := vi_intent_id st + 1\<rparr>)"

definition estimate_market_price :: "ValueInvestor \<Rightarrow> AgentView \<Rightarrow> error + (real option \<times> ValueInvestor)" where
  "estimate_market_price st view =
     (case market_data_view view of
        None \<Rightarrow> Inl AssertionError
      | Some md \<Rightarrow>
          (case mid_price md of
             Some p \<Rightarrow> Inr (Some p, st\<lparr>vi_last_known_price := Some p\<rparr>)
           | None \<Rightarrow>
               (case last_traded_price md of
                  Some p \<Rightarrow> Inr (Some p, st\<lparr>vi_last_known_price := Some p\<rparr>)
                | None \<Rightarrow> Inr (vi_last_known_price st, st))))"

definition update_optimism :: "ValueInvestor \<Rightarrow> ValueInvestor" where
  "update_optimism st =
     (if perceived_pnl st > 0
      then (let delta = belief_update_rate st * (1 - stubbornness st)
            in st\<lparr>optimism := min 1 (optimism st + delta)\<rparr>)
      else if perceived_pnl st < 0
      then (let delta = belief_update_rate st * (1 - stubbornness st)
            in st\<lparr>optimism := max 0 (optimism st - delta)\<rparr>)
      else st)"

definition update_perceived_pnl :: "ValueInvestor \<Rightarrow> AgentView \<Rightarrow> error + ValueInvestor" where
  "update_perceived_pnl st view =
     (case estimate_market_price st view of
        Inl e \<Rightarrow> Inl e
      | Inr (mp, st1) \<Rightarrow>
          (let market_price = (case mp of None \<Rightarrow> belief st1 | Some p \<Rightarrow> p);
               portfolio_value = cash (vi_account_view st1)
                                 + real_of_int (shares (vi_account_view st1)) * market_price
           in Inr (st1\<lparr>perceived_pnl := portfolio_value - initial_capital st1\<rparr>)))"

definition update_beliefs :: "ValueInvestor \<Rightarrow> AgentView \<Rightarrow> error + ValueInvestor" where
  "update_beliefs st view =
     (case economy_insight_view view of
        None \<Rightarrow> Inl AssertionError
      | Some economy \<Rightarrow>
          (case tv_interval economy of
             (TV_low, TV_high) \<Rightarrow>
               update_perceived_pnl
                 (update_optimism (st\<lparr>belief := TV_low + optimism st * (TV_high - TV_low)\<rparr>))
                 view))"

definition calculate_mispricing :: "ValueInvestor \<Rightarrow> AgentView \<Rightarrow> error + (real \<times> ValueInvestor)" where
  "calculate_mispricing st view =
     (case estimate_market_price st view of
        Inl e \<Rightarrow> Inl e
      | Inr (None, st1) \<Rightarrow> Inr (0, st1)
      | Inr (Some market_price, st1) \<Rightarrow>
          if market_price \<le> 0 then Inr (0, st1)
          else (case py_div (belief st1 - market_price) (belief st1) of
                  Inl e \<Rightarrow> Inl e
                | Inr mispricing \<Rightarrow> Inr (mispricing, st1)))"

definition calculate_position_fraction :: "ValueInvestor \<Rightarrow> real" where
  "calculate_position_fraction st =
     (case vi_last_known_price st of
        None \<Rightarrow> 0
      | Some p \<Rightarrow>
          (let total_capital = cash (vi_account_view st) + real_of_int (shares (vi_account_view st)) * p
           in if total_capital \<le> 0 then 0
              else (real_of_int (shares (vi_account_view st)) * p) / total_capital))"

text \<open>
  The loop of \<open>_evaluate_deposit_opportunity\<close> over \<open>deposit_rates.items()\<close>. The pair is
  \<open>(best_term, best_score)\<close>; a \<open>best_score\<close> of \<open>None\<close> stands for \<open>-float('inf')\<close>.
\<close>

fun deposit_loop :: "ValueInvestor \<Rightarrow> int \<Rightarrow> (int, real) dict \<Rightarrow> int option \<times> real option
                       \<Rightarrow> error + (int option \<times> real option)" where
  "deposit_loop st max_term [] acc = Inr acc"
| "deposit_loop st max_term ((term, rate) # rest) (best_term, best_score) =
     (case py_div (real_of_int term) (real_of_int max_term) of
        Inl e \<Rightarrow> Inl e
      | Inr q \<Rightarrow>
          (let horizon_penalty = (1 - deposit_horizon_preference st) * q;
               score = rate - horizon_penalty
           in if (case best_score of None \<Rightarrow> True | Some b \<Rightarrow> score > b)
              then deposit_loop st max_term rest (Some term, Some score)
              else deposit_loop st max_term rest (best_term, best_score)))"

definition evaluate_deposit_opportunity :: "ValueInvestor \<Rightarrow> AgentView \<Rightarrow> error + (int \<times> real) option" where
  "evaluate_deposit_opportunity st view =
     (case economy_insight_view view of
        None \<Rightarrow> Inl AssertionError
      | Some economy \<Rightarrow>
          (case dict_keys (deposit_rates economy) of
             [] \<Rightarrow> Inr None
           | k # ks \<Rightarrow>
               (let max_term = fold max ks k in
                case deposit_loop st max_term (deposit_rates economy) (None, None) of
                  Inl e \<Rightarrow> Inl e
                | Inr (best_term, _) \<Rightarrow>
                    (case best_term of
                       None \<Rightarrow> Inr None
                     | Some t \<Rightarrow>
                         if t = 0 then Inr None
                         else (case map_of (deposit_rates economy) t of
                                 None \<Rightarrow> Inl KeyError
                               | Some best_rate \<Rightarrow>
                                   if best_rate \<ge> deposit_affinity st then Inr (Some (t, best_rate))
                                   else Inr None)))))"

definition select_intention :: "ValueInvestor \<Rightarrow> AgentView \<Rightarrow> error + ValueInvestor" where
  "select_intention st view =
     (case calculate_mispricing st view of
        Inl e \<Rightarrow> Inl e
      | Inr (mispricing, st1) \<Rightarrow>
          (let position_fraction = calculate_position_fraction st1 in
           case evaluate_deposit_opportunity st1 view of
             Inl e \<Rightarrow> Inl e
           | Inr deposit_opportunity \<Rightarrow>
               if mispricing > mispricing_threshold st1 \<and> position_fraction < max_position_fraction st1
               then Inr (st1\<lparr>current_intention := ACCUMULATE\<rparr>)
               else if mispricing < - mispricing_threshold st1 \<and> position_fraction > 0.1
               then Inr (st1\<lparr>current_intention := DISTRIBUTE\<rparr>)
               else if deposit_opportunity \<noteq> None \<and>
                       (case vi_last_known_price st1 of
                          None \<Rightarrow> False
                        | Some p \<Rightarrow>
                            (let cash = cash (vi_account_view st1);
                                 total_wealth = cash + real_of_int (shares (vi_account_view st1)) * p
                             in total_wealth > 0 \<and> cash / total_wealth > 0.2))
               then Inr (st1\<lparr>current_intention := PARK_CAPITAL\<rparr>)
               else Inr (st1\<lparr>current_intention := WAIT\<rparr>)))"

definition execute_wait :: "ValueInvestor \<Rightarrow> AgentView \<Rightarrow> error + (AgentIntent list \<times> ValueInvestor)" where
  "execute_wait st view = Inr ([], st)"

definition execute_accumulate :: "ValueInvestor \<Rightarrow> AgentView \<Rightarrow> error + (AgentIntent list \<times> ValueInvestor)" where
  "execute_accumulate st view =
     (let cash = cash (vi_account_view st) in
      if cash \<le> 0 then Inr ([], st)
      else
        (case estimate_market_price st view of
           Inl e \<Rightarrow> Inl e
         | Inr (None, st1) \<Rightarrow> Inr ([], st1)
         | Inr (Some market_price, st1) \<Rightarrow>
             (case py_div cash (market_price * (1 + fee_rate (vi_constants st1))) of
                Inl e \<Rightarrow> Inl e
              | Inr q \<Rightarrow>
                  (let shares_affordable = py_int q;
                       quantity = min shares_affordable (max_order_size st1)
                   in if quantity \<le> 0 then Inr ([], st1)
                      else
                        (let buy_price = market_price * (1 - patience_discount st1)
                         in case vi_next_intent_id st1 of
                              (iid, st2) \<Rightarrow>
                                Inr ([PlaceOrderIntent iid BUY LIMIT quantity (Some buy_price)], st2))))))"

definition execute_distribute :: "ValueInvestor \<Rightarrow> AgentView \<Rightarrow> error + (AgentIntent list \<times> ValueInvestor)" where
  "execute_distribute st view =
     (let shares = shares (vi_account_view st) in
      if shares \<le> 0 then Inr ([], st)
      else
        (case estimate_market_price st view of
           Inl e \<Rightarrow> Inl e
         | Inr (None, st1) \<Rightarrow> Inr ([], st1)
         | Inr (Some market_price, st1) \<Rightarrow>
             (let quantity = min shares (max_order_size st1);
                  sell_price = market_price * (1 + patience_premium st1)
              in case vi_next_intent_id st1 of
                   (iid, st2) \<Rightarrow>
                     Inr ([PlaceOrderIntent iid SELL LIMIT quantity (Some sell_price)], st2))))"

definition execute_park_capital :: "ValueInvestor \<Rightarrow> AgentView \<Rightarrow> error + (AgentIntent list \<times> ValueInvestor)" where
  "execute_park_capital st view =
     (let cash = cash (vi_account_view st) in
      if cash \<le> 0 then Inr ([], st)
      else
        (case evaluate_deposit_opportunity st view of
           Inl e \<Rightarrow> Inl e
         | Inr None \<Rightarrow> Inr ([], st)
         | Inr (Some (term, _)) \<Rightarrow>
             (let deposit_amount = cash * deposit_allocation_fraction st
              in if deposit_amount \<le> 0 then Inr ([], st)
                 else (case vi_next_intent_id st of
                         (iid, st1) \<Rightarrow> Inr ([CreateDepositIntent iid deposit_amount term], st1)))))"

definition execute_intention :: "ValueInvestor \<Rightarrow> AgentView \<Rightarrow> error + (AgentIntent list \<times> ValueInvestor)" where
  "execute_intention st view =
     (case current_intention st of
        WAIT \<Rightarrow> execute_wait st view
      | ACCUMULATE \<Rightarrow> execute_accumulate st view
      | DISTRIBUTE \<Rightarrow> execute_distribute st view
      | PARK_CAPITAL \<Rightarrow> execute_park_capital st view)"

definition vi_decide :: "ValueInvestor \<Rightarrow> AgentView \<Rightarrow> error + (AgentIntent list \<times> ValueInvestor)" where
  "vi_decide st view =
     (if agent_id view \<noteq> vi_agent_id st then Inl AssertionError
      else if economy_insight_view view = None then Inl AssertionError
      else
        (case update_beliefs st view of
           Inl e \<Rightarrow> Inl e
         | Inr st1 \<Rightarrow>
             (case select_intention st1 view of
                Inl e \<Rightarrow> Inl e
              | Inr st2 \<Rightarrow> execute_intention st2 view)))"

fun store_deposit_results :: "(int, DepositView option) dict \<Rightarrow> (int, DepositView) dict \<Rightarrow> (int, DepositView) dict" where
  "store_deposit_results [] d = d"
| "store_deposit_results ((_, None) # rest) d = store_deposit_results rest d"
| "store_deposit_results ((_, Some deposit_view) # rest) d =
     store_deposit_results rest (dict_set (deposit_id deposit_view) deposit_view d)"

definition vi_update :: "ValueInvestor \<Rightarrow> AgentFeedback \<Rightarrow> error + ValueInvestor" where
  "vi_update st feedback =
     Inr (st\<lparr>active_deposits := store_deposit_results (deposit_results feedback) (active_deposits st),
              pending_orders := store_order_results (order_results feedback) (pending_orders st)\<rparr>)"

section \<open>SimulationEngine\<close>

text \<open>
  Modelled from the spec: the external market (\<open>environment.Environment\<close>) is not among
  the sources. It is a parameter: a record of its operations over an abstract market
  state \<open>'e\<close>. \<open>create_order\<close> and \<open>create_deposit\<close> may answer \<open>None\<close>, which the agents'
  \<open>update\<close> methods test for. \<open>account_view_of\<close> reads the live \<open>AccountView\<close> of an agent:
  the agents hold a reference to that object, so what they read in \<open>decide\<close> is the
  market's current value.
\<close>

record 'e Environment =
  create_order :: "'e \<Rightarrow> int \<Rightarrow> OrderType \<Rightarrow> Side \<Rightarrow> int \<Rightarrow> real option \<Rightarrow> OrderView option \<times> 'e"
  cancel_order :: "'e \<Rightarrow> int \<Rightarrow> int \<Rightarrow> 'e"
  create_deposit :: "'e \<Rightarrow> int \<Rightarrow> int \<Rightarrow> real \<Rightarrow> DepositView option \<times> 'e"
  account_view_of :: "'e \<Rightarrow> int \<Rightarrow> AccountView"

text \<open>
  Modelled from the spec: \<open>noise_trader.py\<close> is not among the sources. The noise trader
  is a parameter: an abstract state \<open>'n\<close> with its two methods.
\<close>

record 'n NoiseTraderOps =
  nt_decide :: "'n \<Rightarrow> AccountView \<Rightarrow> AgentView \<Rightarrow> error + (AgentIntent list \<times> 'n)"
  nt_update :: "'n \<Rightarrow> AgentFeedback \<Rightarrow> error + 'n"

datatype 'n Agent =
    MarketMakerAgent MarketMaker
  | ValueInvestorAgent ValueInvestor
  | MomentumTraderAgent MomentumTrader
  | NoiseTraderAgent 'n

fun is_value_investor :: "'n Agent \<Rightarrow> bool" where
  "is_value_investor (ValueInvestorAgent _) = True"
| "is_value_investor _ = False"

fun is_market_maker :: "'n Agent \<Rightarrow> bool" where
  "is_market_maker (MarketMakerAgent _) = True"
| "is_market_maker _ = False"

fun is_create_deposit :: "AgentIntent \<Rightarrow> bool" where
  "is_create_deposit (CreateDepositIntent _ _ _) = True"
| "is_create_deposit _ = False"

text \<open>
  \<open>agent.decide(view)\<close> by dynamic dispatch; \<open>account\<close> is the current reading of the
  agent's live account view.
\<close>

fun agent_decide :: "'n NoiseTraderOps \<Rightarrow> AccountView \<Rightarrow> 'n Agent \<Rightarrow> AgentView
                       \<Rightarrow> error + (AgentIntent list \<times> 'n Agent)" where
  "agent_decide nt account (MarketMakerAgent st) view =
     (case mm_decide (st\<lparr>mm_account_view := account\<rparr>) view of
        Inl e \<Rightarrow> Inl e | Inr (intents, st') \<Rightarrow> Inr (intents, MarketMakerAgent st'))"
| "agent_decide nt account (ValueInvestorAgent st) view =
     (case vi_decide (st\<lparr>vi_account_view := account\<rparr>) view of
        Inl e \<Rightarrow> Inl e | Inr (intents, st') \<Rightarrow> Inr (intents, ValueInvestorAgent st'))"
| "agent_decide nt account (MomentumTraderAgent st) view =
     (case mt_decide (st\<lparr>mt_account_view := account\<rparr>) view of
        Inl e \<Rightarrow> Inl e | Inr (intents, st') \<Rightarrow> Inr (intents, MomentumTraderAgent st'))"
| "agent_decide nt account (NoiseTraderAgent n) view =
     (case nt_decide nt n account view of
        Inl e \<Rightarrow> Inl e | Inr (intents, n') \<Rightarrow> Inr (intents, NoiseTraderAgent n'))"

fun agent_update :: "'n NoiseTraderOps \<Rightarrow> 'n Agent \<Rightarrow> AgentFeedback \<Rightarrow> error + 'n Agent" where
  "agent_update nt (MarketMakerAgent st) feedback =
     (case mm_update st feedback of Inl e \<Rightarrow> Inl e | Inr st' \<Rightarrow> Inr (MarketMakerAgent st'))"
| "agent_update nt (ValueInvestorAgent st) feedback =
     (case vi_update st feedback of Inl e \<Rightarrow> Inl e | Inr st' \<Rightarrow> Inr (ValueInvestorAgent st'))"
| "agent_update nt (MomentumTraderAgent st) feedback =
     (case mt_update st feedback of Inl e \<Rightarrow> Inl e | Inr st' \<Rightarrow> Inr (MomentumTraderAgent st'))"
| "agent_update nt (NoiseTraderAgent n) feedback =
     (case nt_update nt n feedback of Inl e \<Rightarrow> Inl e | Inr n' \<Rightarrow> Inr (NoiseTraderAgent n'))"

text \<open>
  The loop of \<open>_process_intents\<close>; the triple is \<open>order_results\<close>, \<open>deposit_results\<close> and
  the market state.
\<close>

fun process_intents_loop :: "'e Environment \<Rightarrow> int \<Rightarrow> AgentIntent list
      \<Rightarrow> (int, OrderView option) dict \<times> (int, DepositView option) dict \<times> 'e
      \<Rightarrow> (int, OrderView option) dict \<times> (int, DepositView option) dict \<times> 'e" where
  "process_intents_loop env aid [] acc = acc"
| "process_intents_loop env aid (PlaceOrderIntent iid sd ot quantity pr # rest) (ors, drs, e) =
     (case create_order env e aid ot sd quantity pr of
        (order_view, e') \<Rightarrow> process_intents_loop env aid rest (dict_set iid order_view ors, drs, e'))"
| "process_intents_loop env aid (CancelOrderIntent iid oid # rest) (ors, drs, e) =
     process_intents_loop env aid rest (dict_set iid None ors, drs, cancel_order env e aid oid)"
| "process_intents_loop env aid (CreateDepositIntent iid amount term # rest) (ors, drs, e) =
     (case create_deposit env e aid term amount of
        (deposit_view, e') \<Rightarrow> process_intents_loop env aid rest (ors, dict_set iid deposit_view drs, e'))"

definition process_intents :: "'e Environment \<Rightarrow> int \<Rightarrow> AgentIntent list \<Rightarrow> 'e \<Rightarrow> AgentFeedback \<times> 'e" where
  "process_intents env aid intents e =
     (case process_intents_loop env aid intents ([], [], e) of
        (ors, drs, e') \<Rightarrow>
          (\<lparr>fb_agent_id = aid, order_results = ors, deposit_results = drs\<rparr>, e'))"

text \<open>
  Modelled from the spec: the views the engine refreshes each tick
  (\<open>get_simulation_realtime_data()\<close>, not among the sources).
\<close>

record SimulationRealtimeData =
  ECONOMY_INSIGHT_VIEW :: "EconomyInsightView option"
  MARKET_DATA_VIEW :: "MarketDataView option"

text \<open>
  The body of the loop of \<open>_agent_loop\<close> for one \<open>(agent_id, agent)\<close>; \<open>now\<close> is the
  reading of \<open>time.time()\<close>. The result is the agent after its turn and the market.
\<close>

definition agent_step :: "'e Environment \<Rightarrow> 'n NoiseTraderOps \<Rightarrow> SimulationRealtimeData \<Rightarrow> real
      \<Rightarrow> int \<Rightarrow> int \<Rightarrow> int \<times> 'n Agent \<Rightarrow> 'e \<Rightarrow> error + ('n Agent \<times> 'e)" where
  "agent_step env nt sim_data now macro micro entry e =
     (case entry of
        (aid, agent) \<Rightarrow>
          (let economy_view = (if is_value_investor agent \<or> is_market_maker agent
                               then ECONOMY_INSIGHT_VIEW sim_data else None);
               view = \<lparr>agent_id = aid, timestamp = now, macro_tick = macro, micro_tick = micro,
                       market_data_view = MARKET_DATA_VIEW sim_data,
                       economy_insight_view = economy_view\<rparr>
           in case agent_decide nt (account_view_of env e aid) agent view of
                Inl err \<Rightarrow> Inl err
              | Inr (intents, agent') \<Rightarrow>
                  if intents = [] then Inr (agent', e)
                  else if \<not> is_value_investor agent \<and> list_ex is_create_deposit intents
                  then Inl AssertionError
                  else (case process_intents env aid intents e of
                          (feedback, e') \<Rightarrow>
                            (case agent_update nt agent' feedback of
                               Inl err \<Rightarrow> Inl err
                             | Inr agent'' \<Rightarrow> Inr (agent'', e')))))"

text \<open>
  \<open>_agent_loop\<close>: the agents take their turns in the order of the list; \<open>clock k\<close> is the
  time read in the \<open>k\<close>-th iteration. The agents are mutated in place, so the result
  lists them after their turns.
\<close>

fun agent_loop :: "'e Environment \<Rightarrow> 'n NoiseTraderOps \<Rightarrow> SimulationRealtimeData \<Rightarrow> (nat \<Rightarrow> real)
      \<Rightarrow> nat \<Rightarrow> int \<Rightarrow> int \<Rightarrow> (int \<times> 'n Agent) list \<Rightarrow> 'e
      \<Rightarrow> error + ((int \<times> 'n Agent) list \<times> 'e)" where
  "agent_loop env nt sim_data clock k macro micro [] e = Inr ([], e)"
| "agent_loop env nt sim_data clock k macro micro ((aid, agent) # rest) e =
     (case agent_step env nt sim_data (clock k) macro micro (aid, agent) e of
        Inl err \<Rightarrow> Inl err
      | Inr (agent', e') \<Rightarrow>
          (case agent_loop env nt sim_data clock (k + 1) macro micro rest e' of
             Inl err \<Rightarrow> Inl err
           | Inr (finished, e'') \<Rightarrow> Inr ((aid, agent') # finished, e'')))"

section \<open>AgentManager\<close>

text \<open>
  The class dictionaries (\<open>market_makers\<close>, \<open>value_investors\<close>, ...) hold references to
  the same objects as \<open>agents\<close>; after construction the sources read only their keys
  (membership and \<open>len\<close>), so the model keeps their keys, in insertion order. The
  generator \<open>random.Random\<close> is a parameter: an abstract state \<open>'r\<close>.
\<close>

record ('n, 'r) AgentManager =
  agents :: "(int, 'n Agent) dict"
  market_makers :: "int list"
  value_investors :: "int list"
  momentum_traders :: "int list"
  noise_traders :: "int list"
  rng :: 'r

text \<open>\<open>AgentManager.__init__\<close>; \<open>r\<close> is \<open>random.Random(random_seed)\<close>.\<close>

definition new_agent_manager :: "'r \<Rightarrow> ('n, 'r) AgentManager" where
  "new_agent_manager r =
     \<lparr>agents = [], market_makers = [], value_investors = [], momentum_traders = [],
      noise_traders = [], rng = r\<rparr>"

text \<open>\<open>d[k] = v\<close> on the keys of a dictionary.\<close>

definition key_add :: "int \<Rightarrow> int list \<Rightarrow> int list" where
  "key_add k ks = (if k \<in> set ks then ks else ks @ [k])"

text \<open>
  Modelled from the spec: the configuration (\<open>get_simulation_agent_configuration\<close>: the
  counts and the distributions of the parameters), the registration callback of the
  market and the sampling functions of \<open>random.Random\<close> are not among the sources. They
  are a parameter: for each class, \<open>build\<close> stands for the body of the loop of
  \<open>_initialize_*\<close> from the sampling of the endowment to the constructor call; it draws
  from the generator, registers the agent (\<open>RuntimeError\<close> when the market answers
  \<open>None\<close>) and constructs it.
\<close>

record ('n, 'r) Population =
  market_maker_count :: nat
  value_investor_count :: nat
  momentum_trader_count :: nat
  noise_trader_count :: nat
  build_market_maker :: "int \<Rightarrow> 'r \<Rightarrow> error + (MarketMaker \<times> 'r)"
  build_value_investor :: "int \<Rightarrow> 'r \<Rightarrow> error + (ValueInvestor \<times> 'r)"
  build_momentum_trader :: "int \<Rightarrow> 'r \<Rightarrow> error + (MomentumTrader \<times> 'r)"
  build_noise_trader :: "int \<Rightarrow> 'r \<Rightarrow> error + ('n \<times> 'r)"

text \<open>
  The loop \<open>for i in range(group.count)\<close> of one \<open>_initialize_*\<close> method: \<open>base\<close> is 10000,
  20000, 30000 or 40000, the triple is \<open>agents\<close>, the keys of the class dictionary and
  the generator.
\<close>

fun initialize_loop :: "(int \<Rightarrow> 'r \<Rightarrow> error + ('a \<times> 'r)) \<Rightarrow> ('a \<Rightarrow> 'n Agent) \<Rightarrow> int \<Rightarrow> nat list
      \<Rightarrow> (int, 'n Agent) dict \<times> int list \<times> 'r
      \<Rightarrow> error + ((int, 'n Agent) dict \<times> int list \<times> 'r)" where
  "initialize_loop build wrap base [] acc = Inr acc"
| "initialize_loop build wrap base (i # rest) (ags, ks, r) =
     (let aid = base + int i in
      case build aid r of
        Inl e \<Rightarrow> Inl e
      | Inr (agent, r') \<Rightarrow>
          initialize_loop build wrap base rest (dict_set aid (wrap agent) ags, key_add aid ks, r'))"

definition initialize_market_makers :: "('n, 'r) Population \<Rightarrow> ('n, 'r) AgentManager \<Rightarrow> error + ('n, 'r) AgentManager" where
  "initialize_market_makers pop m =
     (case initialize_loop (build_market_maker pop) MarketMakerAgent 10000
             [0..<market_maker_count pop] (agents m, market_makers m, rng m) of
        Inl e \<Rightarrow> Inl e
      | Inr (ags, ks, r) \<Rightarrow> Inr (m\<lparr>agents := ags, market_makers := ks, rng := r\<rparr>))"

definition initialize_value_investors :: "('n, 'r) Population \<Rightarrow> ('n, 'r) AgentManager \<Rightarrow> error + ('n, 'r) AgentManager" where
  "initialize_value_investors pop m =
     (case initialize_loop (build_value_investor pop) ValueInvestorAgent 20000
             [0..<value_investor_count pop] (agents m, value_investors m, rng m) of
        Inl e \<Rightarrow> Inl e
      | Inr (ags, ks, r) \<Rightarrow> Inr (m\<lparr>agents := ags, value_investors := ks, rng := r\<rparr>))"

definition initialize_momentum_traders :: "('n, 'r) Population \<Rightarrow> ('n, 'r) AgentManager \<Rightarrow> error + ('n, 'r) AgentManager" where
  "initialize_momentum_traders pop m =
     (case initialize_loop (build_momentum_trader pop) MomentumTraderAgent 30000
             [0..<momentum_trader_count pop] (agents m, momentum_traders m, rng m) of
        Inl e \<Rightarrow> Inl e
      | Inr (ags, ks, r) \<Rightarrow> Inr (m\<lparr>agents := ags, momentum_traders := ks, rng := r\<rparr>))"

definition initialize_noise_traders :: "('n, 'r) Population \<Rightarrow> ('n, 'r) AgentManager \<Rightarrow> error + ('n, 'r) AgentManager" where
  "initialize_noise_traders pop m =
     (case initialize_loop (build_noise_trader pop) NoiseTraderAgent 40000
             [0..<noise_trader_count pop] (agents m, noise_traders m, rng m) of
        Inl e \<Rightarrow> Inl e
      | Inr (ags, ks, r) \<Rightarrow> Inr (m\<lparr>agents := ags, noise_traders := ks, rng := r\<rparr>))"

definition initialize_agents :: "('n, 'r) Population \<Rightarrow> ('n, 'r) AgentManager \<Rightarrow> error + ('n, 'r) AgentManager" where
  "initialize_agents pop m =
     (case initialize_market_makers pop m of
        Inl e \<Rightarrow> Inl e
      | Inr m1 \<Rightarrow>
          (case initialize_value_investors pop m1 of
             Inl e \<Rightarrow> Inl e
           | Inr m2 \<Rightarrow>
               (case initialize_momentum_traders pop m2 of
                  Inl e \<Rightarrow> Inl e
                | Inr m3 \<Rightarrow> initialize_noise_traders pop m3)))"

text \<open>
  \<open>random.Random.shuffle\<close> of the Python library (Fisher-Yates):
  \<^verbatim>\<open>for i in reversed(range(1, len(x))):
      j = randbelow(i + 1)
      x[i], x[j] = x[j], x[i]\<close>
  \<open>randbelow\<close> is the generator's step, a parameter.
\<close>

primrec shuffle_loop :: "('r \<Rightarrow> nat \<Rightarrow> nat \<times> 'r) \<Rightarrow> nat \<Rightarrow> 'a list \<Rightarrow> 'r \<Rightarrow> 'a list \<times> 'r" where
  "shuffle_loop randbelow 0 x r = (x, r)"
| "shuffle_loop randbelow (Suc n) x r =
     (case randbelow r (Suc n + 1) of
        (j, r') \<Rightarrow> shuffle_loop randbelow n (x[Suc n := x ! j, j := x ! Suc n]) r')"

definition shuffle :: "('r \<Rightarrow> nat \<Rightarrow> nat \<times> 'r) \<Rightarrow> 'a list \<Rightarrow> 'r \<Rightarrow> 'a list \<times> 'r" where
  "shuffle randbelow x r = shuffle_loop randbelow (length x - 1) x r"

definition macro_tick_agents :: "('r \<Rightarrow> nat \<Rightarrow> nat \<times> 'r) \<Rightarrow> ('n, 'r) AgentManager
      \<Rightarrow> (int \<times> 'n Agent) list \<times> ('n, 'r) AgentManager" where
  "macro_tick_agents randbelow m =
     (case shuffle randbelow (agents m) (rng m) of
        (candidates, r) \<Rightarrow> (candidates, m\<lparr>rng := r\<rparr>))"

definition micro_tick_agents :: "('r \<Rightarrow> nat \<Rightarrow> nat \<times> 'r) \<Rightarrow> ('n, 'r) AgentManager
      \<Rightarrow> (int \<times> 'n Agent) list \<times> ('n, 'r) AgentManager" where
  "micro_tick_agents randbelow m =
     (case shuffle randbelow
             (filter (\<lambda>(aid, agent). aid \<notin> set (value_investors m)) (agents m)) (rng m) of
        (candidates, r) \<Rightarrow> (candidates, m\<lparr>rng := r\<rparr>))"

text \<open>
  The scheduling calls of \<open>SimulationEngine.run\<close>, tick after tick: a tick with
  \<open>current_micro == 0\<close> asks for \<open>macro_tick_agents\<close>, any other for \<open>micro_tick_agents\<close>.
  \<open>ticks\<close> lists the micro index of each tick; \<open>play k aid agent\<close> is the agent after what
  happened to it in tick \<open>k\<close> (the agents are mutated in place by \<open>_agent_loop\<close>; keys are
  never added or removed). The result is the order of agent identifiers of each tick.
\<close>

fun schedule_run :: "('r \<Rightarrow> nat \<Rightarrow> nat \<times> 'r) \<Rightarrow> (nat \<Rightarrow> int \<Rightarrow> 'n Agent \<Rightarrow> 'n Agent) \<Rightarrow> nat \<Rightarrow> int list
      \<Rightarrow> ('n, 'r) AgentManager \<Rightarrow> int list list" where
  "schedule_run randbelow play k [] m = []"
| "schedule_run randbelow play k (current_micro # rest) m =
     (case (if current_micro = 0 then macro_tick_agents randbelow m
            else micro_tick_agents randbelow m) of
        (order, m1) \<Rightarrow>
          map fst order
          # schedule_run randbelow play (k + 1) rest
              (m1\<lparr>agents := map (\<lambda>(aid, agent). (aid, play k aid agent)) (agents m1)\<rparr>))"

section \<open>Example inputs\<close>

definition example_constants :: AgentConstants where
  "example_constants = \<lparr>simulation_macro_tick = 10, simulation_micro_tick = 5, fee_rate = 0.001\<rparr>"

definition example_momentum_trader :: MomentumTrader where
  "example_momentum_trader =
     \<lparr>mt_agent_id = 30000, mt_account_view = \<lparr>cash = 1000, shares = 10\<rparr>,
      mt_constants = example_constants,
      momentum_window = 5, entry_threshold = 0.02, exit_threshold = 0.005,
      aggressiveness = 0.5, max_exposure_fraction = 0.5, directional_bias = 0,
      liquidity_baseline = 100, price_history = [100], active_orders = [], mt_intent_id = 0\<rparr>"

text \<open>
  The total top-of-book size as the claim about the liquidity amplifier words it: the sum
  of the best-bid and best-ask sizes, a missing side counting 0.
\<close>

definition total_top_of_book_size :: "MarketDataView \<Rightarrow> int" where
  "total_top_of_book_size md =
     (case L1_bids md of None \<Rightarrow> 0 | Some (_, sz, _) \<Rightarrow> sz)
   + (case L1_asks md of None \<Rightarrow> 0 | Some (_, sz, _) \<Rightarrow> sz)"

text \<open>
  The liquidity amplifier in the specification's words,
  \<open>1/clamp(total_top_of_book_size/liquidity_baseline, 0.5, 2.0)\<close>, to be compared with
  \<open>calculate_liquidity_amplifier\<close>.
\<close>

definition spec_liquidity_amplifier :: "int \<Rightarrow> int \<Rightarrow> real" where
  "spec_liquidity_amplifier total_size baseline =
     1 / max 0.5 (min 2 (real_of_int total_size / real_of_int baseline))"

definition empty_book :: MarketDataView where
  "empty_book = \<lparr>mid_price = Some 100, micro_price = None, last_traded_price = None,
                  L1_bids = None, L1_asks = None\<rparr>"

definition thin_book :: MarketDataView where
  "thin_book = \<lparr>mid_price = Some 100, micro_price = None, last_traded_price = None,
                  L1_bids = Some (99, 20, 1), L1_asks = Some (101, 20, 2)\<rparr>"

definition deep_book :: MarketDataView where
  "deep_book = \<lparr>mid_price = Some 100, micro_price = None, last_traded_price = None,
                  L1_bids = Some (99, 100, 4), L1_asks = Some (101, 50, 2)\<rparr>"

definition example_view :: "int \<Rightarrow> MarketDataView \<Rightarrow> AgentView" where
  "example_view aid md = \<lparr>agent_id = aid, timestamp = 0, macro_tick = 0, micro_tick = 1,
      market_data_view = Some md, economy_insight_view = None\<rparr>"

definition example_economy :: EconomyInsightView where
  "example_economy = \<lparr>tv_interval = (90, 110), deposit_rates = [(5, 0.03), (10, 0.05)]\<rparr>"

definition example_market :: "real \<Rightarrow> MarketDataView" where
  "example_market p = \<lparr>mid_price = Some p, micro_price = None, last_traded_price = None,
                        L1_bids = Some (p - 1, 20, 1), L1_asks = Some (p + 1, 20, 2)\<rparr>"

definition example_full_view :: "int \<Rightarrow> real \<Rightarrow> AgentView" where
  "example_full_view aid p = \<lparr>agent_id = aid, timestamp = 0, macro_tick = 0, micro_tick = 1,
      market_data_view = Some (example_market p), economy_insight_view = Some example_economy\<rparr>"

definition example_order :: "int \<Rightarrow> Side \<Rightarrow> OrderLifecycle \<Rightarrow> real \<Rightarrow> OrderView" where
  "example_order oid sd lc p =
     \<lparr>order_id = oid, side = sd, lifecycle = lc,
      end_reason = (if lc = DONE then Some FILLED else None), price = Some p\<rparr>"

definition example_market_maker :: MarketMaker where
  "example_market_maker =
     \<lparr>mm_agent_id = 10000, mm_account_view = \<lparr>cash = 1000, shares = 50\<rparr>,
      mm_constants = example_constants,
      target_inventory_fraction = 0.5, risk_lower_bound = 0.2, risk_upper_bound = 0.8,
      stabilization_tolerance = 0.2, skew_factor = 1, spread_size = 2, order_size = 10,
      wait_time = 3,
      active_bids = [], active_asks = [],
      mm_last_known_price = Some 10, last_quote_tick = None, current_micro_tick = 0,
      last_mid_price = None, last_inventory_ratio = None, layer_changed = False,
      order_filled_this_tick = False, last_layer = ''PROVIDE'', current_global_tick = 0,
      last_quote_global_tick = None, mm_intent_id = 0\<rparr>"

text \<open>
  A market maker with cash \<open>c\<close>, \<open>s\<close> shares, a stabilization tolerance of \<open>pct\<close> percent and
  three cached orders.
\<close>

definition example_cached_maker :: "real \<Rightarrow> int \<Rightarrow> int \<Rightarrow> MarketMaker" where
  "example_cached_maker c s pct =
     example_market_maker
       \<lparr>mm_account_view := \<lparr>cash = c, shares = s\<rparr>,
        stabilization_tolerance := real_of_int pct / 100,
        active_bids := [(7, example_order 7 BUY WORKING 5)],
        active_asks := [(8, example_order 8 SELL WORKING 20), (9, example_order 9 SELL DONE 11)]\<rparr>"

definition example_value_investor :: ValueInvestor where
  "example_value_investor =
     \<lparr>vi_agent_id = 20000, vi_account_view = \<lparr>cash = 1000, shares = 0\<rparr>,
      vi_constants = example_constants,
      initial_optimism = 0.5, stubbornness = 0.5, belief_update_rate = 0.1,
      mispricing_threshold = 0.03, max_position_fraction = 0.8, deposit_affinity = 0.04,
      deposit_allocation_fraction = 0.5, deposit_horizon_preference = 0.5,
      max_order_size = 20, patience_discount = 0.01, patience_premium = 0.01,
      optimism = 0.5, belief = 100, perceived_pnl = 0, initial_capital = 1000,
      current_intention = WAIT, active_deposits = [], pending_orders = [],
      vi_last_known_price = None, vi_intent_id = 0\<rparr>"

text \<open>
  A market that numbers orders and deposits with a counter, accepts every request and
  shows every agent the same account.
\<close>

definition example_environment :: "nat Environment" where
  "example_environment =
     \<lparr>create_order = (\<lambda>e aid ot sd q p.
          (Some \<lparr>order_id = int e, side = sd, lifecycle = WORKING, end_reason = None, price = p\<rparr>,
           e + 1)),
      cancel_order = (\<lambda>e aid oid. e),
      create_deposit = (\<lambda>e aid t amount.
          (Some \<lparr>deposit_id = int e, maturity_macro_tick = t\<rparr>, e + 1)),
      account_view_of = (\<lambda>e aid. \<lparr>cash = 1000, shares = 50\<rparr>)\<rparr>"

text \<open>A noise trader that never trades.\<close>

definition example_noise_trader :: "unit NoiseTraderOps" where
  "example_noise_trader =
     \<lparr>nt_decide = (\<lambda>n account view. Inr ([], n)), nt_update = (\<lambda>n feedback. Inr n)\<rparr>"

definition example_sim_data :: SimulationRealtimeData where
  "example_sim_data =
     \<lparr>ECONOMY_INSIGHT_VIEW = Some example_economy, MARKET_DATA_VIEW = Some (example_market 10)\<rparr>"

text \<open>
  A feedback with a failed intent, a buy order that is already done, a working sell order
  and a failed deposit.
\<close>

definition example_feedback :: AgentFeedback where
  "example_feedback =
     \<lparr>fb_agent_id = 10000,
      order_results = [(0, None), (1, Some (example_order 4 BUY DONE 9)),
                       (2, Some (example_order 5 SELL WORKING 11))],
      deposit_results = [(3, None)]\<rparr>"

text \<open>
  A market maker with nothing to do: its only cached order is done (cancelled), and its
  account, as the market below shows it, cannot pay for a share.
\<close>

definition example_idle_maker :: MarketMaker where
  "example_idle_maker =
     example_market_maker
       \<lparr>active_asks := [(9, (example_order 9 SELL DONE 11)\<lparr>end_reason := Some CANCELLED\<rparr>)],
        order_filled_this_tick := True\<rparr>"

definition example_poor_environment :: "nat Environment" where
  "example_poor_environment =
     example_environment\<lparr>account_view_of := (\<lambda>e aid. \<lparr>cash = 1, shares = 0\<rparr>)\<rparr>"

section \<open>Notions used in the statements\<close>

text \<open>
  The cancel intents for the orders \<open>oids\<close>, in order, numbered from the counter value
  \<open>c\<close> on.
\<close>

primrec cancel_intents_from :: "int \<Rightarrow> int list \<Rightarrow> AgentIntent list" where
  "cancel_intents_from c [] = []"
| "cancel_intents_from c (oid # rest) = CancelOrderIntent c oid # cancel_intents_from (c + 1) rest"

text \<open>
  The identifiers of the cached orders a cancel loop picks: those \<open>WORKING\<close> and not
  spared by \<open>keep\<close>, in the order of the cache.
\<close>

definition cancel_targets :: "(OrderView \<Rightarrow> bool) \<Rightarrow> (int, OrderView) dict \<Rightarrow> int list" where
  "cancel_targets keep d = map fst (filter (\<lambda>(oid, ov). lifecycle ov = WORKING \<and> \<not> keep ov) d)"

text \<open>
  The intents carry the consecutive identifiers \<open>c\<close>, \<open>c + 1\<close>, ... in the order of the
  list.
\<close>

primrec issued_from :: "int \<Rightarrow> AgentIntent list \<Rightarrow> bool" where
  "issued_from c [] = True"
| "issued_from c (i # rest) = (intent_id_of i = c \<and> issued_from (c + 1) rest)"

text \<open>
  What \<open>decide\<close> never writes in a market maker: the order caches, the fill flag, the
  account and constants it was given, and its parameters.
\<close>

definition mm_frame :: "MarketMaker \<Rightarrow> MarketMaker \<Rightarrow> bool" where
  "mm_frame st st' =
     (active_bids st' = active_bids st \<and> active_asks st' = active_asks st
      \<and> order_filled_this_tick st' = order_filled_this_tick st
      \<and> mm_account_view st' = mm_account_view st \<and> mm_constants st' = mm_constants st
      \<and> mm_agent_id st' = mm_agent_id st
      \<and> target_inventory_fraction st' = target_inventory_fraction st
      \<and> risk_lower_bound st' = risk_lower_bound st \<and> risk_upper_bound st' = risk_upper_bound st
      \<and> stabilization_tolerance st' = stabilization_tolerance st
      \<and> skew_factor st' = skew_factor st \<and> spread_size st' = spread_size st
      \<and> order_size st' = order_size st \<and> wait_time st' = wait_time st)"

text \<open>
  The effect of a step of \<open>decide\<close> on the counter: the intents it returns carry the
  next consecutive identifiers, the counter advances by their number, and the frame is
  kept.
\<close>

definition mm_issues :: "MarketMaker \<Rightarrow> AgentIntent list \<Rightarrow> MarketMaker \<Rightarrow> bool" where
  "mm_issues st intents st' =
     (issued_from (mm_intent_id st) intents
      \<and> mm_intent_id st' = mm_intent_id st + int (length intents)
      \<and> mm_frame st st')"

text \<open>
  The state in which \<open>MarketMaker.decide\<close> enters a layer: the bookkeeping of the lines
  before the dispatch on \<open>current_layer\<close>.
\<close>

definition decide_preamble :: "MarketMaker \<Rightarrow> AgentView \<Rightarrow> MarketMaker" where
  "decide_preamble st view =
     (let st1 = st\<lparr>current_micro_tick := micro_tick view,
                    current_global_tick :=
                      macro_tick view * simulation_micro_tick (mm_constants st) + micro_tick view,
                    layer_changed := False\<rparr>;
          current_layer = determine_current_layer st1;
          st2 = (if last_layer st1 \<noteq> current_layer then st1\<lparr>layer_changed := True\<rparr> else st1)
                  \<lparr>last_layer := current_layer\<rparr>;
          new_ratio = calculate_inventory_ratio st2
      in (case last_inventory_ratio st2 of
            None \<Rightarrow> st2
          | Some old_ratio \<Rightarrow>
              (let old_direction = old_ratio - target_inventory_fraction st2;
                   new_direction = new_ratio - target_inventory_fraction st2
               in if old_direction * new_direction < 0
                  then st2\<lparr>layer_changed := True\<rparr> else st2))
           \<lparr>last_inventory_ratio := Some new_ratio\<rparr>)"

text \<open>
  An intent of a quoting layer with target prices \<open>bid\<close> and \<open>ask\<close>: a cancel, or a limit
  order at the target price of its side.
\<close>

fun quoted_at :: "real \<Rightarrow> real \<Rightarrow> AgentIntent \<Rightarrow> bool" where
  "quoted_at bid ask (PlaceOrderIntent i sd ot q p) =
     (ot = LIMIT \<and> p = Some (if sd = BUY then bid else ask))"
| "quoted_at bid ask (CancelOrderIntent i oid) = True"
| "quoted_at bid ask (CreateDepositIntent i amount t) = False"

text \<open>The order identifiers the cancel intents of a list target, in order.\<close>

fun cancelled_ids :: "AgentIntent list \<Rightarrow> int list" where
  "cancelled_ids [] = []"
| "cancelled_ids (CancelOrderIntent i oid # rest) = oid # cancelled_ids rest"
| "cancelled_ids (_ # rest) = cancelled_ids rest"


text \<open>The intents a \<open>decide\<close> call returned, or the exception it raised.\<close>

definition intents_of :: "error + (AgentIntent list \<times> 's) \<Rightarrow> error + AgentIntent list" where
  "intents_of r = (case r of Inl e \<Rightarrow> Inl e | Inr (intents, _) \<Rightarrow> Inr intents)"

text \<open>A cache without its done orders.\<close>

definition purge_done :: "(int, OrderView) dict \<Rightarrow> (int, OrderView) dict" where
  "purge_done d = filter (\<lambda>(oid, ov). lifecycle ov \<noteq> DONE) d"



section \<open>MomentumTrader: the momentum signal\<close>

text \<open>
  C4. The weighted momentum signal is strictly positive on the price history
  \<open>[100, 101, 102]\<close>, strictly negative on \<open>[102, 101, 100]\<close>, and exactly 0 on every
  price history with fewer than two prices.
\<close>

theorem momentum_signal_examples:
  "calculate_momentum_signal (st\<lparr>price_history := [100, 101, 102]\<rparr>) > 0
   \<and> calculate_momentum_signal (st\<lparr>price_history := [102, 101, 100]\<rparr>) < 0
   \<and> (length (price_history st) < 2 \<longrightarrow> calculate_momentum_signal st = 0)"
  by (simp add: calculate_momentum_signal_def)

theorem momentum_signal_examples_witness:
  "length (price_history example_momentum_trader) < 2
   \<and> calculate_momentum_signal example_momentum_trader = 0
   \<and> calculate_momentum_signal (example_momentum_trader\<lparr>price_history := [100, 101, 102]\<rparr>) > 0
   \<and> calculate_momentum_signal (example_momentum_trader\<lparr>price_history := [102, 101, 100]\<rparr>) < 0"
proof -
  have short: "length (price_history example_momentum_trader) < 2"
    by (simp add: example_momentum_trader_def)
  from momentum_signal_examples [of example_momentum_trader] short
  show ?thesis by blast
qed

section \<open>MomentumTrader: the liquidity amplifier\<close>

text \<open>
  C5 as claimed fails on an empty book: both sides missing give a total of 0, for which
  the formula yields \<open>1/0.5 = 2\<close>, while the code returns \<open>1.0\<close> by its guard
  \<open>if total_liquidity == 0\<close>.
\<close>

theorem liquidity_amplifier_counterexample:
  "calculate_liquidity_amplifier example_momentum_trader (example_view 30000 empty_book) = Inr 1
   \<and> spec_liquidity_amplifier (total_top_of_book_size empty_book)
        (liquidity_baseline example_momentum_trader) = 2
   \<and> calculate_liquidity_amplifier example_momentum_trader (example_view 30000 empty_book)
       \<noteq> Inr (spec_liquidity_amplifier (total_top_of_book_size empty_book)
                 (liquidity_baseline example_momentum_trader))"
  by (simp add: calculate_liquidity_amplifier_def example_view_def empty_book_def
      spec_liquidity_amplifier_def total_top_of_book_size_def example_momentum_trader_def)

text \<open>The specification's formula falls as the book deepens, for a positive baseline.\<close>

lemma spec_amp_antimono:
  assumes "0 < b" "0 < t1" "t1 \<le> t2"
  shows "spec_liquidity_amplifier t2 b \<le> spec_liquidity_amplifier t1 b"
proof -
  have le: "real_of_int t1 / real_of_int b \<le> real_of_int t2 / real_of_int b"
    using assms by (simp add: divide_right_mono)
  have "max (1/2) (min 2 (real_of_int t1 / real_of_int b)) \<le> max (1/2) (min 2 (real_of_int t2 / real_of_int b))"
    using le by (intro max.mono min.mono) simp_all
  moreover have "(1/2::real) \<le> max (1/2) (min 2 (real_of_int t1 / real_of_int b))" by (rule max.cobounded1)
  then have "0 < max (1/2) (min 2 (real_of_int t1 / real_of_int b))" by linarith
  ultimately show ?thesis
    unfolding spec_liquidity_amplifier_def by (simp add: frac_le)
qed

text \<open>
  C5, amended. For a view with market data: when the total top-of-book size is 0 the
  amplifier is 1; when it is not 0 and the baseline is not 0 the amplifier is
  \<open>1/clamp(total/baseline, 0.5, 2)\<close>; and for a positive baseline and positive totals a
  deeper book never has a larger amplifier than a thinner one.
\<close>

theorem liquidity_amplifier_amended:
  "market_data_view view = Some md \<longrightarrow>
     (total_top_of_book_size md = 0 \<longrightarrow> calculate_liquidity_amplifier st view = Inr 1)
   \<and> (total_top_of_book_size md \<noteq> 0 \<and> liquidity_baseline st \<noteq> 0 \<longrightarrow>
        calculate_liquidity_amplifier st view =
          Inr (spec_liquidity_amplifier (total_top_of_book_size md) (liquidity_baseline st)))
   \<and> (\<forall>(view'::AgentView) (md'::MarketDataView). market_data_view view' = Some md' \<and> 0 < liquidity_baseline st
          \<and> 0 < total_top_of_book_size md
          \<and> total_top_of_book_size md \<le> total_top_of_book_size md' \<longrightarrow>
          (\<exists>a a'. calculate_liquidity_amplifier st view = Inr a
                 \<and> calculate_liquidity_amplifier st view' = Inr a' \<and> a' \<le> a))"
proof (intro impI conjI allI)
  assume md: "market_data_view view = Some md"
  show "calculate_liquidity_amplifier st view = Inr 1" if "total_top_of_book_size md = 0"
    using that md by (simp add: calculate_liquidity_amplifier_def total_top_of_book_size_def)
  have eq: "calculate_liquidity_amplifier st v =
          Inr (spec_liquidity_amplifier (total_top_of_book_size m) (liquidity_baseline st))"
    if "market_data_view v = Some m" "total_top_of_book_size m \<noteq> 0" "liquidity_baseline st \<noteq> 0" for v m
    using that by (simp add: calculate_liquidity_amplifier_def total_top_of_book_size_def
        spec_liquidity_amplifier_def py_div_def Let_def)
  show "calculate_liquidity_amplifier st view =
          Inr (spec_liquidity_amplifier (total_top_of_book_size md) (liquidity_baseline st))"
    if "total_top_of_book_size md \<noteq> 0 \<and> liquidity_baseline st \<noteq> 0"
    using that md eq by blast
  fix view' :: AgentView and md' :: MarketDataView
  assume h: "market_data_view view' = Some md' \<and> 0 < liquidity_baseline st
          \<and> 0 < total_top_of_book_size md
          \<and> total_top_of_book_size md \<le> total_top_of_book_size md'"
  then have a: "calculate_liquidity_amplifier st view =
          Inr (spec_liquidity_amplifier (total_top_of_book_size md) (liquidity_baseline st))"
    using eq [OF md] by simp
  from h have b: "calculate_liquidity_amplifier st view' =
          Inr (spec_liquidity_amplifier (total_top_of_book_size md') (liquidity_baseline st))"
    using eq [of view' md'] by simp
  from h have "spec_liquidity_amplifier (total_top_of_book_size md') (liquidity_baseline st)
       \<le> spec_liquidity_amplifier (total_top_of_book_size md) (liquidity_baseline st)"
    using spec_amp_antimono by blast
  with a b show "\<exists>a a'. calculate_liquidity_amplifier st view = Inr a
                 \<and> calculate_liquidity_amplifier st view' = Inr a' \<and> a' \<le> a" by blast
qed

theorem liquidity_amplifier_amended_witness:
  "calculate_liquidity_amplifier example_momentum_trader (example_view 30000 empty_book) = Inr 1
   \<and> calculate_liquidity_amplifier example_momentum_trader (example_view 30000 thin_book) = Inr 2
   \<and> calculate_liquidity_amplifier example_momentum_trader (example_view 30000 deep_book) = Inr (2/3)"
proof -
  have v: "market_data_view (example_view 30000 m) = Some m" for m
    by (simp add: example_view_def)
  have t0: "total_top_of_book_size empty_book = 0"
    by (simp add: total_top_of_book_size_def empty_book_def)
  have t1: "total_top_of_book_size thin_book = 40"
    by (simp add: total_top_of_book_size_def thin_book_def)
  have t2: "total_top_of_book_size deep_book = 150"
    by (simp add: total_top_of_book_size_def deep_book_def)
  have b: "liquidity_baseline example_momentum_trader = 100"
    by (simp add: example_momentum_trader_def)
  have s1: "spec_liquidity_amplifier 40 100 = 2" by (simp add: spec_liquidity_amplifier_def)
  have s2: "spec_liquidity_amplifier 150 100 = 2/3" by (simp add: spec_liquidity_amplifier_def)
  from liquidity_amplifier_amended [of "example_view 30000 empty_book" empty_book example_momentum_trader]
  have c0: "calculate_liquidity_amplifier example_momentum_trader (example_view 30000 empty_book) = Inr 1"
    using v t0 by simp
  from liquidity_amplifier_amended [of "example_view 30000 thin_book" thin_book example_momentum_trader]
  have c1: "calculate_liquidity_amplifier example_momentum_trader (example_view 30000 thin_book) = Inr 2"
    using v t1 b s1 by simp
  from liquidity_amplifier_amended [of "example_view 30000 deep_book" deep_book example_momentum_trader]
  have c2: "calculate_liquidity_amplifier example_momentum_trader (example_view 30000 deep_book) = Inr (2/3)"
    using v t2 b s2 by simp
  from c0 c1 c2 show ?thesis by simp
qed

section \<open>MarketMaker: auxiliary facts\<close>

lemma mm_frame_refl: "mm_frame st st" by (simp add: mm_frame_def)
lemma mm_frame_trans: "mm_frame a b \<Longrightarrow> mm_frame b c \<Longrightarrow> mm_frame a c" by (simp add: mm_frame_def)

lemma cancel_targets_Nil: "cancel_targets keep [] = []" by (simp add: cancel_targets_def)
lemma cancel_targets_Cons: "cancel_targets keep ((oid, ov) # d) =
   (if lifecycle ov = WORKING \<and> \<not> keep ov then oid # cancel_targets keep d else cancel_targets keep d)"
  by (simp add: cancel_targets_def)

lemma cancel_loop_eq:
  "cancel_loop keep d st =
     (cancel_intents_from (mm_intent_id st) (cancel_targets keep d),
      st\<lparr>mm_intent_id := mm_intent_id st + int (length (cancel_targets keep d))\<rparr>)"
proof (induction d arbitrary: st)
  case Nil
  then show ?case by (simp add: cancel_targets_Nil)
next
  case (Cons a d)
  obtain oid ov where a: "a = (oid, ov)" by (cases a)
  show ?case
    by (simp add: a cancel_targets_Cons Cons.IH mm_next_intent_id_def add.assoc)
qed

lemma issued_from_append:
  "issued_from c (xs @ ys) = (issued_from c xs \<and> issued_from (c + int (length xs)) ys)"
  by (induction xs arbitrary: c) (auto simp: add.assoc)

lemma issued_from_cancels: "issued_from c (cancel_intents_from c oids)"
  by (induction oids arbitrary: c) auto

lemma length_cancel_intents_from: "length (cancel_intents_from c oids) = length oids"
  by (induction oids arbitrary: c) auto

lemma issued_from_upto:
  "issued_from c xs \<Longrightarrow> map intent_id_of xs = [c..c + int (length xs) - 1]"
proof (induction xs arbitrary: c)
  case Nil
  then show ?case by simp
next
  case (Cons a xs)
  from Cons.prems have "issued_from (c + 1) xs" by simp
  from Cons.IH [OF this] have "map intent_id_of xs = [c + 1..c + int (length xs)]"
    by (simp add: algebra_simps)
  moreover have "[c..c + int (length (a # xs)) - 1] = c # [c + 1..c + int (length xs)]"
    by (subst upto_rec1) (simp_all add: algebra_simps)
  ultimately show ?case using Cons.prems by simp
qed

lemma estimate_price_frame:
  "estimate_price st view = Inr (p, st') \<Longrightarrow>
     \<exists>lk. st' = st\<lparr>mm_last_known_price := lk\<rparr>"
  unfolding estimate_price_def
  by (auto split: option.splits prod.splits intro: exI[of _ "mm_last_known_price st"])

lemma estimate_price_Some:
  "estimate_price st view = Inr (p, st') \<Longrightarrow> p \<noteq> None"
  unfolding estimate_price_def
  by (auto split: option.splits prod.splits) (metis option.distinct(1))+

lemma estimate_price_indep:
  "mm_last_known_price st2 = mm_last_known_price st1 \<Longrightarrow>
   estimate_price st1 view = Inr (p, st1') \<Longrightarrow>
   \<exists>st2'. estimate_price st2 view = Inr (p, st2')"
  unfolding estimate_price_def
  by (auto split: option.splits prod.splits)

lemma ratio_cong:
  "mm_account_view b = mm_account_view a \<Longrightarrow> mm_last_known_price b = mm_last_known_price a \<Longrightarrow>
   target_inventory_fraction b = target_inventory_fraction a \<Longrightarrow>
   calculate_inventory_ratio b = calculate_inventory_ratio a"
  by (simp add: calculate_inventory_ratio_def Let_def split: option.splits)

lemma layer_cong:
  "mm_account_view b = mm_account_view a \<Longrightarrow> mm_last_known_price b = mm_last_known_price a \<Longrightarrow>
   target_inventory_fraction b = target_inventory_fraction a \<Longrightarrow>
   risk_lower_bound b = risk_lower_bound a \<Longrightarrow> risk_upper_bound b = risk_upper_bound a \<Longrightarrow>
   stabilization_tolerance b = stabilization_tolerance a \<Longrightarrow>
   determine_current_layer b = determine_current_layer a"
  by (simp add: determine_current_layer_def should_survive_def should_stabilize_def
      ratio_cong [of b a])

lemma mm_decide_unfold:
  assumes "agent_id view = mm_agent_id st" "market_data_view view \<noteq> None"
    "economy_insight_view view \<noteq> None"
  shows "mm_decide st view =
     (if determine_current_layer st = ''SURVIVE'' then survive_layer (decide_preamble st view) view
      else if determine_current_layer st = ''STABILIZE'' then stabilize_layer (decide_preamble st view) view
      else provide_layer (decide_preamble st view) view)"
proof -
  have l: "determine_current_layer (st\<lparr>current_micro_tick := a, current_global_tick := b,
              layer_changed := c\<rparr>) = determine_current_layer st" for a b c
    by (rule layer_cong) simp_all
  from assms obtain md ec where v: "market_data_view view = Some md" "economy_insight_view view = Some ec"
    by auto
  show ?thesis
    unfolding mm_decide_def decide_preamble_def Let_def l by (simp add: assms(1) v)
qed

lemma mm_decide_asserts:
  "mm_decide st view = Inr res \<Longrightarrow>
     agent_id view = mm_agent_id st \<and> market_data_view view \<noteq> None \<and> economy_insight_view view \<noteq> None"
  unfolding mm_decide_def by (auto split: if_splits)


lemma preamble_issues: "mm_issues st [] (decide_preamble st view)"
  unfolding decide_preamble_def Let_def mm_issues_def mm_frame_def
  by (simp split: option.splits)

lemma preamble_keeps:
  "mm_last_known_price (decide_preamble st view) = mm_last_known_price st
   \<and> last_quote_global_tick (decide_preamble st view) = last_quote_global_tick st
   \<and> last_mid_price (decide_preamble st view) = last_mid_price st"
  unfolding decide_preamble_def Let_def by (simp split: option.splits)

lemma preamble_ratio: "calculate_inventory_ratio (decide_preamble st view) = calculate_inventory_ratio st"
  using preamble_issues [of st view] preamble_keeps [of st view]
  by (intro ratio_cong) (simp_all add: mm_issues_def mm_frame_def)

lemma mm_issues_refl: "mm_issues st [] st"
  by (simp add: mm_issues_def mm_frame_refl)

lemma mm_issues_append:
  "mm_issues a xs b \<Longrightarrow> mm_issues b ys c \<Longrightarrow> mm_issues a (xs @ ys) c"
  unfolding mm_issues_def using mm_frame_trans by (auto simp: issued_from_append)

lemma mm_issues_silent:
  "mm_issues a [] b \<Longrightarrow> mm_issues b ys c \<Longrightarrow> mm_issues a ys c"
  using mm_issues_append [of a "[]" b ys c] by simp

lemma mm_issues_silent2:
  "mm_issues a xs b \<Longrightarrow> mm_issues b [] c \<Longrightarrow> mm_issues a xs c"
  using mm_issues_append [of a xs b "[]" c] by simp

lemma mm_issues_field:
  "mm_issues st [] (st\<lparr>last_mid_price := x\<rparr>)"
  "mm_issues st [] (st\<lparr>mm_last_known_price := y\<rparr>)"
  "mm_issues st [] (st\<lparr>last_quote_global_tick := z, last_mid_price := x\<rparr>)"
  by (simp_all add: mm_issues_def mm_frame_def)

lemma estimate_price_issues:
  "estimate_price st view = Inr (p, st') \<Longrightarrow> mm_issues st [] st'"
  using estimate_price_frame [of st view p st'] mm_issues_field(2) by auto

lemma next_intent_id_issues:
  "mm_next_intent_id st = (iid, st') \<Longrightarrow> intent_id_of i = iid \<Longrightarrow> mm_issues st [i] st'"
  by (auto simp: mm_next_intent_id_def mm_issues_def mm_frame_def)

lemma cancel_loop_issues:
  "cancel_loop keep d st = (intents, st') \<Longrightarrow> mm_issues st intents st'"
  unfolding cancel_loop_eq
  by (auto simp: mm_issues_def mm_frame_def issued_from_cancels length_cancel_intents_from)

lemma cancel_all_orders_issues:
  "cancel_all_orders st = (intents, st') \<Longrightarrow> mm_issues st intents st'"
  unfolding cancel_all_orders_def
  by (auto split: prod.splits dest!: cancel_loop_issues intro: mm_issues_append)

lemma cancel_non_equivalent_orders_issues:
  "cancel_non_equivalent_orders st b a = (intents, st') \<Longrightarrow> mm_issues st intents st'"
  unfolding cancel_non_equivalent_orders_def
  by (auto split: prod.splits dest!: cancel_loop_issues intro: mm_issues_append)

lemma selective_stabilize_cancel_issues:
  "selective_stabilize_cancel st r b a = (intents, st') \<Longrightarrow> mm_issues st intents st'"
  unfolding selective_stabilize_cancel_def
  by (auto split: if_splits dest!: cancel_loop_issues)

lemma place_if_issues:
  "place_if g sd q p st = (intents, st') \<Longrightarrow> mm_issues st intents st'"
  unfolding place_if_def
  by (auto split: if_splits prod.splits intro: mm_issues_refl next_intent_id_issues)

lemma create_panic_sell_intent_issues:
  "create_panic_sell_intent st view = Inr (r, st') \<Longrightarrow>
     mm_issues st (case r of None \<Rightarrow> [] | Some i \<Rightarrow> [i]) st'"
  unfolding create_panic_sell_intent_def Let_def
  by (auto split: if_splits sum.splits option.splits prod.splits
      dest!: estimate_price_issues
      intro: mm_issues_refl mm_issues_silent [OF _ mm_issues_silent [OF mm_issues_field(1) next_intent_id_issues]])

lemma create_panic_buy_intent_issues:
  "create_panic_buy_intent st view = Inr (r, st') \<Longrightarrow>
     mm_issues st (case r of None \<Rightarrow> [] | Some i \<Rightarrow> [i]) st'"
  unfolding create_panic_buy_intent_def Let_def
  by (auto split: if_splits sum.splits option.splits prod.splits
      dest!: estimate_price_issues
      intro: mm_issues_refl mm_issues_silent [OF _ mm_issues_silent [OF mm_issues_field(1) next_intent_id_issues]])

lemma survive_layer_issues:
  "survive_layer st view = Inr (intents, st') \<Longrightarrow> mm_issues st intents st'"
  unfolding survive_layer_def Let_def
  by (auto split: if_splits sum.splits option.splits prod.splits
      dest!: cancel_all_orders_issues create_panic_sell_intent_issues create_panic_buy_intent_issues
      intro: mm_issues_append mm_issues_silent2)

lemma stabilize_layer_issues:
  "stabilize_layer st view = Inr (intents, st') \<Longrightarrow> mm_issues st intents st'"
  unfolding stabilize_layer_def Let_def
  by (auto split: if_splits sum.splits option.splits prod.splits
      dest!: estimate_price_issues selective_stabilize_cancel_issues place_if_issues
      intro: mm_issues_refl mm_issues_silent mm_issues_append
             mm_issues_silent2 [OF _ mm_issues_field(1)])

lemma provide_layer_issues:
  "provide_layer st view = Inr (intents, st') \<Longrightarrow> mm_issues st intents st'"
  unfolding provide_layer_def Let_def
  by (auto split: if_splits sum.splits option.splits prod.splits
      dest!: estimate_price_issues cancel_non_equivalent_orders_issues place_if_issues
      intro: mm_issues_refl mm_issues_silent mm_issues_append
             mm_issues_silent2 [OF _ mm_issues_field(3)])

lemma mm_decide_issues:
  assumes "mm_decide st view = Inr (intents, st')"
  shows "mm_issues st intents st'"
proof -
  note a = mm_decide_asserts [OF assms]
  from a have u: "mm_decide st view =
     (if determine_current_layer st = ''SURVIVE'' then survive_layer (decide_preamble st view) view
      else if determine_current_layer st = ''STABILIZE'' then stabilize_layer (decide_preamble st view) view
      else provide_layer (decide_preamble st view) view)"
    by (intro mm_decide_unfold) simp_all
  from assms u have "mm_issues (decide_preamble st view) intents st'"
    by (auto split: if_splits
        dest: survive_layer_issues stabilize_layer_issues provide_layer_issues)
  with preamble_issues [of st view] show ?thesis by (rule mm_issues_silent)
qed

section \<open>Intent identifiers and feedback keys\<close>

lemma update_price_history_counter:
  "update_price_history st view = Inr st' \<Longrightarrow> mt_intent_id st' = mt_intent_id st"
  unfolding update_price_history_def Let_def
  by (auto split: sum.splits option.splits)

lemma mt_act_counter:
  "act_on_signal st sg view = Inr (intents, st') \<Longrightarrow>
     issued_from (mt_intent_id st) intents \<and> mt_intent_id st' = mt_intent_id st + int (length intents)"
  unfolding act_on_signal_def enter_long_def enter_short_def exit_position_def Let_def
    mt_next_intent_id_def
  by (auto split: if_splits sum.splits option.splits prod.splits)

lemma mt_decide_counter:
  "mt_decide st view = Inr (intents, st') \<Longrightarrow>
     issued_from (mt_intent_id st) intents \<and> mt_intent_id st' = mt_intent_id st + int (length intents)"
  unfolding mt_decide_def Let_def
  by (auto split: if_splits sum.splits dest!: update_price_history_counter mt_act_counter)

lemma estimate_market_price_counter:
  "estimate_market_price st view = Inr (p, st') \<Longrightarrow> vi_intent_id st' = vi_intent_id st"
  unfolding estimate_market_price_def
  by (auto split: option.splits)

lemma update_beliefs_counter:
  "update_beliefs st view = Inr st' \<Longrightarrow> vi_intent_id st' = vi_intent_id st"
  unfolding update_beliefs_def update_perceived_pnl_def update_optimism_def Let_def
  by (auto split: option.splits prod.splits sum.splits if_splits dest!: estimate_market_price_counter)

lemma select_intention_counter:
  "select_intention st view = Inr st' \<Longrightarrow> vi_intent_id st' = vi_intent_id st"
  unfolding select_intention_def calculate_mispricing_def Let_def
  by (auto split: option.splits prod.splits sum.splits if_splits dest!: estimate_market_price_counter)

lemma execute_intention_counter:
  "execute_intention st view = Inr (intents, st') \<Longrightarrow>
     issued_from (vi_intent_id st) intents \<and> vi_intent_id st' = vi_intent_id st + int (length intents)"
  unfolding execute_intention_def execute_wait_def execute_accumulate_def execute_distribute_def
    execute_park_capital_def Let_def vi_next_intent_id_def
  by (auto split: Intention.splits option.splits prod.splits sum.splits if_splits
      dest!: estimate_market_price_counter)

lemma vi_decide_counter:
  "vi_decide st view = Inr (intents, st') \<Longrightarrow>
     issued_from (vi_intent_id st) intents \<and> vi_intent_id st' = vi_intent_id st + int (length intents)"
  unfolding vi_decide_def
  by (auto split: if_splits sum.splits
      dest!: update_beliefs_counter select_intention_counter execute_intention_counter)

lemma dict_keys_set: "set (dict_keys (dict_set k v d)) = insert k (set (dict_keys d))"
  using dom_update [of k v d] by (simp add: dict_keys_def dict_set_def)

lemma process_intents_loop_keys:
  "process_intents_loop env aid intents (ors, drs, e) = (ors', drs', e') \<Longrightarrow>
     set (dict_keys ors') \<union> set (dict_keys drs')
       \<subseteq> set (dict_keys ors) \<union> set (dict_keys drs) \<union> set (map intent_id_of intents)"
proof (induction intents arbitrary: ors drs e)
  case Nil
  then show ?case by simp
next
  case (Cons i intents)
  show ?case
  proof (cases i)
    case (PlaceOrderIntent iid sd ot q pr)
    obtain ov e1 where c: "create_order env e aid ot sd q pr = (ov, e1)" by (cases "create_order env e aid ot sd q pr")
    from Cons.prems have "process_intents_loop env aid intents (dict_set iid ov ors, drs, e1) = (ors', drs', e')"
      by (simp add: PlaceOrderIntent c)
    from Cons.IH [OF this] show ?thesis by (auto simp: PlaceOrderIntent dict_keys_set)
  next
    case (CancelOrderIntent iid oid)
    from Cons.prems have "process_intents_loop env aid intents (dict_set iid None ors, drs, cancel_order env e aid oid) = (ors', drs', e')"
      by (simp add: CancelOrderIntent)
    from Cons.IH [OF this] show ?thesis by (auto simp: CancelOrderIntent dict_keys_set)
  next
    case (CreateDepositIntent iid amount tm)
    obtain dv e1 where c: "create_deposit env e aid tm amount = (dv, e1)" by (cases "create_deposit env e aid tm amount")
    from Cons.prems have "process_intents_loop env aid intents (ors, dict_set iid dv drs, e1) = (ors', drs', e')"
      by (simp add: CreateDepositIntent c)
    from Cons.IH [OF this] show ?thesis by (auto simp: CreateDepositIntent dict_keys_set)
  qed
qed

lemma process_intents_keys:
  "process_intents env aid intents e = (feedback, e') \<Longrightarrow>
     set (dict_keys (order_results feedback)) \<union> set (dict_keys (deposit_results feedback))
       \<subseteq> set (map intent_id_of intents)"
proof -
  assume p: "process_intents env aid intents e = (feedback, e')"
  obtain ors drs e1 where l: "process_intents_loop env aid intents ([], [], e) = (ors, drs, e1)"
    by (cases "process_intents_loop env aid intents ([], [], e)") auto
  from p l have f: "order_results feedback = ors" "deposit_results feedback = drs"
    by (auto simp: process_intents_def)
  from process_intents_loop_keys [OF l] show ?thesis by (simp add: f dict_keys_def)
qed

lemma mm_store_order_results_counter:
  "mm_intent_id (mm_store_order_results ors st) = mm_intent_id st"
proof (induction ors arbitrary: st)
  case Nil
  then show ?case by simp
next
  case (Cons a ors)
  obtain iid r where a: "a = (iid, r)" by (cases a)
  show ?case
  proof (cases r)
    case None
    with Cons show ?thesis by (simp add: a)
  next
    case (Some ov)
    show ?thesis by (cases "side ov = BUY") (simp_all add: a Some Cons)
  qed
qed

lemma mm_cleanup_done_orders_counter:
  assumes "mm_cleanup_done_orders st = Inr st'"
  shows "mm_intent_id st' = mm_intent_id st"
proof -
  from assms obtain bids asks f where
    "st' = st\<lparr>active_bids := bids, active_asks := asks, order_filled_this_tick := f\<rparr>"
    unfolding mm_cleanup_done_orders_def
    by (auto split: sum.splits prod.splits)
  then show ?thesis by simp
qed

lemma mm_update_counter:
  assumes "mm_update st feedback = Inr st'"
  shows "mm_intent_id st' = mm_intent_id st"
  using mm_cleanup_done_orders_counter [OF assms [unfolded mm_update_def]]
  by (simp add: mm_store_order_results_counter)

lemma vi_update_counter:
  "vi_update st feedback = Inr st' \<Longrightarrow> vi_intent_id st' = vi_intent_id st"
  by (auto simp: vi_update_def)

lemma mt_update_counter:
  "mt_update st feedback = Inr st' \<Longrightarrow> mt_intent_id st' = mt_intent_id st"
  by (auto simp: mt_update_def mt_cleanup_done_orders_def split: sum.splits)

lemma mm_decide_ids:
  assumes "mm_decide st view = Inr (intents, st')"
  shows "map intent_id_of intents = [mm_intent_id st..mm_intent_id st + int (length intents) - 1]"
    and "mm_intent_id st' = mm_intent_id st + int (length intents)"
  using mm_decide_issues [OF assms] issued_from_upto by (auto simp: mm_issues_def)

lemma vi_decide_ids:
  assumes "vi_decide st view = Inr (intents, st')"
  shows "map intent_id_of intents = [vi_intent_id st..vi_intent_id st + int (length intents) - 1]"
    and "vi_intent_id st' = vi_intent_id st + int (length intents)"
  using vi_decide_counter [OF assms] issued_from_upto by auto

lemma mt_decide_ids:
  assumes "mt_decide st view = Inr (intents, st')"
  shows "map intent_id_of intents = [mt_intent_id st..mt_intent_id st + int (length intents) - 1]"
    and "mt_intent_id st' = mt_intent_id st + int (length intents)"
  using mt_decide_counter [OF assms] issued_from_upto by auto

lemma mm_next_call_ids:
  assumes "mm_decide st view = Inr (intents, st1)"
    and "st2 = st1 \<or> mm_update st1 feedback = Inr st2"
    and "mm_decide st2 view2 = Inr (intents2, st3)"
  shows "map intent_id_of intents2 =
           [mm_intent_id st + int (length intents)
            ..mm_intent_id st + int (length intents) + int (length intents2) - 1]"
proof -
  from assms(2) have "mm_intent_id st2 = mm_intent_id st1" using mm_update_counter by auto
  with mm_decide_ids(2) [OF assms(1)] mm_decide_ids(1) [OF assms(3)] show ?thesis by simp
qed

lemma vi_next_call_ids:
  assumes "vi_decide st view = Inr (intents, st1)"
    and "st2 = st1 \<or> vi_update st1 feedback = Inr st2"
    and "vi_decide st2 view2 = Inr (intents2, st3)"
  shows "map intent_id_of intents2 =
           [vi_intent_id st + int (length intents)
            ..vi_intent_id st + int (length intents) + int (length intents2) - 1]"
proof -
  from assms(2) have "vi_intent_id st2 = vi_intent_id st1" using vi_update_counter by auto
  with vi_decide_ids(2) [OF assms(1)] vi_decide_ids(1) [OF assms(3)] show ?thesis by simp
qed

lemma mt_next_call_ids:
  assumes "mt_decide st view = Inr (intents, st1)"
    and "st2 = st1 \<or> mt_update st1 feedback = Inr st2"
    and "mt_decide st2 view2 = Inr (intents2, st3)"
  shows "map intent_id_of intents2 =
           [mt_intent_id st + int (length intents)
            ..mt_intent_id st + int (length intents) + int (length intents2) - 1]"
proof -
  from assms(2) have "mt_intent_id st2 = mt_intent_id st1" using mt_update_counter by auto
  with mt_decide_ids(2) [OF assms(1)] mt_decide_ids(1) [OF assms(3)] show ?thesis by simp
qed

text \<open>
  C7. For the market maker, the value investor and the momentum trader: the intents one
  \<open>decide\<close> call returns carry, in order, the consecutive identifiers from the counter's
  value on, and the counter ends one past the last of them; \<open>update\<close> leaves the counter
  as it is; so the identifiers of the next \<open>decide\<close> call, with or without an \<open>update\<close>
  in between, start one past the last identifier of the call before and are again
  consecutive. Every key of the two maps of the feedback the engine builds from a list of
  intents is the identifier of one of these intents.
\<close>

theorem intent_ids_round_trip:
  "(mm_decide mm view = Inr (intents, mm') \<longrightarrow>
      map intent_id_of intents = [mm_intent_id mm..mm_intent_id mm + int (length intents) - 1]
      \<and> mm_intent_id mm' = mm_intent_id mm + int (length intents))
   \<and> (vi_decide vi view = Inr (intents, vi') \<longrightarrow>
      map intent_id_of intents = [vi_intent_id vi..vi_intent_id vi + int (length intents) - 1]
      \<and> vi_intent_id vi' = vi_intent_id vi + int (length intents))
   \<and> (mt_decide mt view = Inr (intents, mt') \<longrightarrow>
      map intent_id_of intents = [mt_intent_id mt..mt_intent_id mt + int (length intents) - 1]
      \<and> mt_intent_id mt' = mt_intent_id mt + int (length intents))
   \<and> (mm_update mm' feedback = Inr mmu \<longrightarrow> mm_intent_id mmu = mm_intent_id mm')
   \<and> (vi_update vi' feedback = Inr viu \<longrightarrow> vi_intent_id viu = vi_intent_id vi')
   \<and> (mt_update mt' feedback = Inr mtu \<longrightarrow> mt_intent_id mtu = mt_intent_id mt')
   \<and> (mm_decide mm view = Inr (intents, mm') \<and> (mmu = mm' \<or> mm_update mm' feedback = Inr mmu)
        \<and> mm_decide mmu viewn = Inr (intentsn, mmn) \<longrightarrow>
      map intent_id_of intentsn =
        [mm_intent_id mm + int (length intents)
         ..mm_intent_id mm + int (length intents) + int (length intentsn) - 1])
   \<and> (vi_decide vi view = Inr (intents, vi') \<and> (viu = vi' \<or> vi_update vi' feedback = Inr viu)
        \<and> vi_decide viu viewn = Inr (intentsn, vin) \<longrightarrow>
      map intent_id_of intentsn =
        [vi_intent_id vi + int (length intents)
         ..vi_intent_id vi + int (length intents) + int (length intentsn) - 1])
   \<and> (mt_decide mt view = Inr (intents, mt') \<and> (mtu = mt' \<or> mt_update mt' feedback = Inr mtu)
        \<and> mt_decide mtu viewn = Inr (intentsn, mtn) \<longrightarrow>
      map intent_id_of intentsn =
        [mt_intent_id mt + int (length intents)
         ..mt_intent_id mt + int (length intents) + int (length intentsn) - 1])
   \<and> (process_intents env aid intents e = (feedback, e') \<longrightarrow>
      set (dict_keys (order_results feedback)) \<union> set (dict_keys (deposit_results feedback))
        \<subseteq> set (map intent_id_of intents))"
proof -
  have 1: "mm_decide mm view = Inr (intents, mm') \<longrightarrow>
      map intent_id_of intents = [mm_intent_id mm..mm_intent_id mm + int (length intents) - 1]
      \<and> mm_intent_id mm' = mm_intent_id mm + int (length intents)"
    using mm_decide_ids [of mm view intents mm'] by blast
  have 2: "vi_decide vi view = Inr (intents, vi') \<longrightarrow>
      map intent_id_of intents = [vi_intent_id vi..vi_intent_id vi + int (length intents) - 1]
      \<and> vi_intent_id vi' = vi_intent_id vi + int (length intents)"
    using vi_decide_ids [of vi view intents vi'] by blast
  have 3: "mt_decide mt view = Inr (intents, mt') \<longrightarrow>
      map intent_id_of intents = [mt_intent_id mt..mt_intent_id mt + int (length intents) - 1]
      \<and> mt_intent_id mt' = mt_intent_id mt + int (length intents)"
    using mt_decide_ids [of mt view intents mt'] by blast
  have 4: "mm_update mm' feedback = Inr mmu \<longrightarrow> mm_intent_id mmu = mm_intent_id mm'"
    using mm_update_counter [of mm' feedback mmu] by blast
  have 5: "vi_update vi' feedback = Inr viu \<longrightarrow> vi_intent_id viu = vi_intent_id vi'"
    using vi_update_counter [of vi' feedback viu] by blast
  have 6: "mt_update mt' feedback = Inr mtu \<longrightarrow> mt_intent_id mtu = mt_intent_id mt'"
    using mt_update_counter [of mt' feedback mtu] by blast
  have 7: "mm_decide mm view = Inr (intents, mm') \<and> (mmu = mm' \<or> mm_update mm' feedback = Inr mmu)
        \<and> mm_decide mmu viewn = Inr (intentsn, mmn) \<longrightarrow>
      map intent_id_of intentsn =
        [mm_intent_id mm + int (length intents)
         ..mm_intent_id mm + int (length intents) + int (length intentsn) - 1]"
    using mm_next_call_ids [of mm view intents mm' mmu feedback viewn intentsn mmn] by blast
  have 8: "vi_decide vi view = Inr (intents, vi') \<and> (viu = vi' \<or> vi_update vi' feedback = Inr viu)
        \<and> vi_decide viu viewn = Inr (intentsn, vin) \<longrightarrow>
      map intent_id_of intentsn =
        [vi_intent_id vi + int (length intents)
         ..vi_intent_id vi + int (length intents) + int (length intentsn) - 1]"
    using vi_next_call_ids [of vi view intents vi' viu feedback viewn intentsn vin] by blast
  have 9: "mt_decide mt view = Inr (intents, mt') \<and> (mtu = mt' \<or> mt_update mt' feedback = Inr mtu)
        \<and> mt_decide mtu viewn = Inr (intentsn, mtn) \<longrightarrow>
      map intent_id_of intentsn =
        [mt_intent_id mt + int (length intents)
         ..mt_intent_id mt + int (length intents) + int (length intentsn) - 1]"
    using mt_next_call_ids [of mt view intents mt' mtu feedback viewn intentsn mtn] by blast
  have 10: "process_intents env aid intents e = (feedback, e') \<longrightarrow>
      set (dict_keys (order_results feedback)) \<union> set (dict_keys (deposit_results feedback))
        \<subseteq> set (map intent_id_of intents)"
    using process_intents_keys [of env aid intents e feedback e'] by blast
  show ?thesis using 1 2 3 4 5 6 7 8 9 10 by (intro conjI) assumption+
qed

section \<open>Evaluation of the examples\<close>

lemmas example_defs =
  example_market_maker_def example_cached_maker_def example_full_view_def example_market_def
  example_economy_def example_constants_def example_order_def example_view_def
  example_momentum_trader_def example_value_investor_def example_environment_def
  example_noise_trader_def example_sim_data_def thin_book_def deep_book_def empty_book_def

lemmas vi_defs =
  vi_decide_def update_beliefs_def update_optimism_def update_perceived_pnl_def
  estimate_market_price_def select_intention_def calculate_mispricing_def
  calculate_position_fraction_def evaluate_deposit_opportunity_def dict_keys_def
  execute_intention_def execute_wait_def execute_accumulate_def execute_distribute_def
  execute_park_capital_def vi_next_intent_id_def py_div_def py_int_def Let_def

lemmas mt_defs =
  mt_decide_def update_price_history_def mt_get_current_price_def calculate_momentum_signal_def
  apply_directional_bias_def evaluate_signal_def act_on_signal_def enter_long_def
  enter_short_def exit_position_def calculate_liquidity_amplifier_def mt_next_intent_id_def
  py_div_def py_int_def Let_def

lemmas mm_defs =
  mm_decide_def determine_current_layer_def should_survive_def should_stabilize_def
  calculate_inventory_ratio_def estimate_price_def
  survive_layer_def cancel_all_orders_def create_panic_sell_intent_def create_panic_buy_intent_def
  stabilize_layer_def calculate_skew_def calculate_skewed_prices_def calculate_skewed_quantities_def
  stabilize_target_prices_def selective_stabilize_cancel_def
  provide_layer_def calculate_provide_prices_def should_refresh_quotes_def
  cancel_non_equivalent_orders_def has_equivalent_working_order_def is_quote_equivalent_def
  dict_values_def validate_bid_quantity_def validate_ask_quantity_def place_if_def
  mm_next_intent_id_def py_div_def py_int_def Let_def

section \<open>MarketMaker: the PROVIDE layer\<close>


lemma quoted_cancels: "list_all (quoted_at bid ask) (cancel_intents_from c oids)"
  by (induction oids arbitrary: c) auto

lemma cancelled_ids_append: "cancelled_ids (xs @ ys) = cancelled_ids xs @ cancelled_ids ys"
  by (induction xs rule: cancelled_ids.induct) auto

lemma cancelled_ids_cancels: "cancelled_ids (cancel_intents_from c oids) = oids"
  by (induction oids arbitrary: c) auto

lemma place_if_quoted:
  "place_if g sd q (if sd = BUY then bid else ask) st = (xs, st') \<Longrightarrow>
     list_all (quoted_at bid ask) xs \<and> cancelled_ids xs = []"
  by (auto simp: place_if_def mm_next_intent_id_def split: if_splits)

lemma place_if_quoted_buy:
  "place_if g BUY q bid st = (xs, st') \<Longrightarrow> list_all (quoted_at bid ask) xs \<and> cancelled_ids xs = []"
  using place_if_quoted [of g BUY q bid ask st xs st'] by simp

lemma place_if_quoted_sell:
  "place_if g SELL q ask st = (xs, st') \<Longrightarrow> list_all (quoted_at bid ask) xs \<and> cancelled_ids xs = []"
  using place_if_quoted [of g SELL q bid ask st xs st'] by simp

lemma provide_prices_frame:
  "calculate_provide_prices (st\<lparr>mm_last_known_price := lk\<rparr>) mid = calculate_provide_prices st mid"
  by (simp add: calculate_provide_prices_def)

lemma provide_prices_cong:
  "mm_frame a b \<Longrightarrow> calculate_provide_prices b mid = calculate_provide_prices a mid"
  by (simp add: calculate_provide_prices_def mm_frame_def)

lemma provide_layer_shape:
  assumes "provide_layer s view = Inr (intents, s')"
    and "estimate_price s view = Inr (Some mid, se)"
    and "calculate_provide_prices s mid = (bid, ask)"
  shows "(bid \<ge> ask \<longrightarrow> intents = []) \<and> list_all (quoted_at bid ask) intents"
proof -
  from estimate_price_frame [OF assms(2)] obtain lk where se: "se = s\<lparr>mm_last_known_price := lk\<rparr>"
    by blast
  have pp: "calculate_provide_prices se mid = (bid, ask)"
    using assms(3) by (simp add: se provide_prices_frame)
  show ?thesis
  proof (cases "bid \<ge> ask \<or> \<not> should_refresh_quotes se (Some mid)")
    case True
    with assms(1,2) pp have "intents = []"
      by (auto simp: provide_layer_def split: if_splits)
    then show ?thesis by simp
  next
    case False
    with assms(1,2) pp show ?thesis
      unfolding provide_layer_def cancel_non_equivalent_orders_def cancel_loop_eq Let_def
      by (auto split: if_splits sum.splits prod.splits simp: quoted_cancels
          dest!: place_if_quoted_buy [where ask = ask] place_if_quoted_sell [where bid = bid])
  qed
qed

text \<open>
  C3. In the PROVIDE layer, with \<open>bid\<close> and \<open>ask\<close> the prices computed from the estimated
  mid price: when they cross (\<open>bid \<ge> ask\<close>) \<open>decide\<close> returns no intent at all; every order
  it places is a limit order at \<open>bid\<close> (a buy) or at \<open>ask\<close> (a sell); and a buy and a sell
  returned by one call never have the buy price at or above the sell price.
\<close>

theorem provide_never_crosses:
  assumes "determine_current_layer st = ''PROVIDE''"
    and "mm_decide st view = Inr (intents, st')"
    and "estimate_price st view = Inr (Some mid, se)"
    and "calculate_provide_prices st mid = (bid, ask)"
  shows "(bid \<ge> ask \<longrightarrow> intents = [])
     \<and> list_all (quoted_at bid ask) intents
     \<and> (\<forall>i j ot ot' qb qa pb pa.
          PlaceOrderIntent i BUY ot qb (Some pb) \<in> set intents
          \<and> PlaceOrderIntent j SELL ot' qa (Some pa) \<in> set intents \<longrightarrow> pb < pa)"
proof -
  let ?s = "decide_preamble st view"
  note a = mm_decide_asserts [OF assms(2)]
  from a have "mm_decide st view = provide_layer ?s view"
    using assms(1) by (subst mm_decide_unfold) simp_all
  with assms(2) have pl: "provide_layer ?s view = Inr (intents, st')" by simp
  from estimate_price_indep [OF _ assms(3), of ?s] preamble_keeps [of st view]
  obtain se' where ep: "estimate_price ?s view = Inr (Some mid, se')" by auto
  have pp: "calculate_provide_prices ?s mid = (bid, ask)"
    using preamble_issues [of st view] assms(4) provide_prices_cong [of st ?s mid]
    by (simp add: mm_issues_def)
  from provide_layer_shape [OF pl ep pp]
  have 1: "bid \<ge> ask \<longrightarrow> intents = []" and 2: "list_all (quoted_at bid ask) intents" by simp_all
  have 3: "pb < pa" if "PlaceOrderIntent i BUY ot qb (Some pb) \<in> set intents"
    "PlaceOrderIntent j SELL ot' qa (Some pa) \<in> set intents" for i j ot ot' qb qa pb pa
  proof -
    from that(1) 1 have "bid < ask" by auto
    moreover from 2 that(1) have "pb = bid" by (auto simp: list_all_iff)
    moreover from 2 that(2) have "pa = ask" by (auto simp: list_all_iff)
    ultimately show ?thesis by simp
  qed
  from 1 2 3 show ?thesis by blast
qed

section \<open>MarketMaker: the SURVIVE layer\<close>















section \<open>MarketMaker: the STABILIZE layer\<close>

lemma cancel_targets_sound:
  "oid \<in> set (cancel_targets keep d) \<Longrightarrow>
     \<exists>ov. (oid, ov) \<in> set d \<and> lifecycle ov = WORKING \<and> \<not> keep ov"
  by (auto simp: cancel_targets_def)

lemma cancel_targets_keys: "set (cancel_targets keep d) \<subseteq> set (dict_keys d)"
  by (auto simp: cancel_targets_def dict_keys_def)

lemma skewed_prices_cong:
  "spread_size b = spread_size a \<Longrightarrow> mm_constants b = mm_constants a \<Longrightarrow>
     calculate_skewed_prices b mid skew = calculate_skewed_prices a mid skew"
  by (simp add: calculate_skewed_prices_def Let_def)

lemma stabilize_target_prices_eq:
  assumes "spread_size b = spread_size a" "mm_constants b = mm_constants a"
  shows "stabilize_target_prices b mid skew = stabilize_target_prices a mid skew"
  unfolding stabilize_target_prices_def skewed_prices_cong [OF assms] assms(1) ..

lemma stabilize_target_prices_frame:
  "stabilize_target_prices (s\<lparr>mm_last_known_price := lk\<rparr>) mid skew = stabilize_target_prices s mid skew"
  by (rule stabilize_target_prices_eq) simp_all

lemma stabilize_target_prices_cong:
  "mm_frame a b \<Longrightarrow> stabilize_target_prices b mid skew = stabilize_target_prices a mid skew"
  by (rule stabilize_target_prices_eq) (simp_all add: mm_frame_def)

lemma calculate_skew_cong:
  "mm_frame a b \<Longrightarrow> calculate_skew b r = calculate_skew a r"
  by (simp add: calculate_skew_def mm_frame_def)

lemma selective_stabilize_cancel_eq:
  "selective_stabilize_cancel s r bid ask =
     (if r < target_inventory_fraction s
      then cancel_loop (\<lambda>ov. is_quote_equivalent ov bid BUY) (active_bids s) s
      else cancel_loop (\<lambda>ov. is_quote_equivalent ov ask SELL) (active_asks s) s)"
  by (simp add: selective_stabilize_cancel_def)

lemma stabilize_layer_cancels:
  assumes sl: "stabilize_layer s view = Inr (intents, s')"
    and est: "estimate_price s view = Inr (Some mid, se)"
    and tp: "stabilize_target_prices s mid (calculate_skew s (calculate_inventory_ratio s)) = (bid, ask)"
  shows "cancelled_ids intents =
     (if calculate_inventory_ratio s < target_inventory_fraction s
      then cancel_targets (\<lambda>ov. is_quote_equivalent ov bid BUY) (active_bids s)
      else cancel_targets (\<lambda>ov. is_quote_equivalent ov ask SELL) (active_asks s))"
proof -
  from estimate_price_frame [OF est] obtain lk where se: "se = s\<lparr>mm_last_known_price := lk\<rparr>"
    by blast
  have tp': "stabilize_target_prices se mid (calculate_skew s (calculate_inventory_ratio s)) = (bid, ask)"
    using tp by (simp add: se stabilize_target_prices_frame)
  have f: "target_inventory_fraction se = target_inventory_fraction s"
    "active_bids se = active_bids s" "active_asks se = active_asks s"
    by (simp_all add: se)
  obtain cancels s2 where sc: "selective_stabilize_cancel se (calculate_inventory_ratio s) bid ask = (cancels, s2)"
    by (cases "selective_stabilize_cancel se (calculate_inventory_ratio s) bid ask")
  have c: "cancels =
     (if calculate_inventory_ratio s < target_inventory_fraction s
      then cancel_intents_from (mm_intent_id se) (cancel_targets (\<lambda>ov. is_quote_equivalent ov bid BUY) (active_bids s))
      else cancel_intents_from (mm_intent_id se) (cancel_targets (\<lambda>ov. is_quote_equivalent ov ask SELL) (active_asks s)))"
    using sc unfolding selective_stabilize_cancel_eq cancel_loop_eq f by (auto split: if_splits)
  from sl est tp' sc obtain bids asks where
    i: "intents = cancels @ bids @ asks" and b: "cancelled_ids bids = []" and a: "cancelled_ids asks = []"
    unfolding stabilize_layer_def Let_def
    by (auto split: sum.splits prod.splits
        dest!: place_if_quoted_buy [where ask = ask] place_if_quoted_sell [where bid = bid])
  show ?thesis
    unfolding i c by (simp add: cancelled_ids_append a b cancelled_ids_cancels)
qed

text \<open>
  C2. In the STABILIZE layer, with \<open>bid\<close> and \<open>ask\<close> the target prices of the call: when the
  inventory ratio is below the target fraction (too many shares), the orders cancelled
  are exactly the \<open>WORKING\<close> entries of \<open>active_bids\<close> that are not price-equivalent to
  \<open>bid\<close>, and no cancel names a key of \<open>active_asks\<close> (the caches sharing no key); when the
  ratio is above the target (too much cash), they are exactly the \<open>WORKING\<close> entries of
  \<open>active_asks\<close> not price-equivalent to \<open>ask\<close>, and no cancel names a key of
  \<open>active_bids\<close>.
\<close>

theorem stabilize_protects_supportive_side:
  assumes "determine_current_layer st = ''STABILIZE''"
    and "mm_decide st view = Inr (intents, st')"
    and "estimate_price st view = Inr (Some mid, se)"
    and "stabilize_target_prices st mid (calculate_skew st (calculate_inventory_ratio st)) = (bid, ask)"
  shows "(calculate_inventory_ratio st < target_inventory_fraction st \<longrightarrow>
            cancelled_ids intents
              = cancel_targets (\<lambda>ov. is_quote_equivalent ov bid BUY) (active_bids st)
          \<and> (\<forall>oid \<in> set (cancelled_ids intents).
                \<exists>ov. (oid, ov) \<in> set (active_bids st) \<and> lifecycle ov = WORKING
                     \<and> \<not> is_quote_equivalent ov bid BUY)
          \<and> (set (dict_keys (active_bids st)) \<inter> set (dict_keys (active_asks st)) = {} \<longrightarrow>
                set (cancelled_ids intents) \<inter> set (dict_keys (active_asks st)) = {}))
     \<and> (calculate_inventory_ratio st > target_inventory_fraction st \<longrightarrow>
            cancelled_ids intents
              = cancel_targets (\<lambda>ov. is_quote_equivalent ov ask SELL) (active_asks st)
          \<and> (\<forall>oid \<in> set (cancelled_ids intents).
                \<exists>ov. (oid, ov) \<in> set (active_asks st) \<and> lifecycle ov = WORKING
                     \<and> \<not> is_quote_equivalent ov ask SELL)
          \<and> (set (dict_keys (active_bids st)) \<inter> set (dict_keys (active_asks st)) = {} \<longrightarrow>
                set (cancelled_ids intents) \<inter> set (dict_keys (active_bids st)) = {}))"
proof -
  let ?s = "decide_preamble st view"
  let ?r = "calculate_inventory_ratio st"
  note a = mm_decide_asserts [OF assms(2)]
  from a have "mm_decide st view = stabilize_layer ?s view"
    using assms(1) by (subst mm_decide_unfold) simp_all
  with assms(2) have sl: "stabilize_layer ?s view = Inr (intents, st')" by simp
  from estimate_price_indep [OF _ assms(3), of ?s] preamble_keeps [of st view]
  obtain se' where ep: "estimate_price ?s view = Inr (Some mid, se')" by auto
  have fr: "mm_frame st ?s" using preamble_issues [of st view] by (simp add: mm_issues_def)
  have tp: "stabilize_target_prices ?s mid (calculate_skew ?s (calculate_inventory_ratio ?s)) = (bid, ask)"
    using assms(4) by (simp add: preamble_ratio stabilize_target_prices_cong [OF fr] calculate_skew_cong [OF fr])
  have f: "target_inventory_fraction ?s = target_inventory_fraction st"
    "active_bids ?s = active_bids st" "active_asks ?s = active_asks st"
    using fr by (simp_all add: mm_frame_def)
  from stabilize_layer_cancels [OF sl ep tp]
  have c: "cancelled_ids intents =
     (if ?r < target_inventory_fraction st
      then cancel_targets (\<lambda>ov. is_quote_equivalent ov bid BUY) (active_bids st)
      else cancel_targets (\<lambda>ov. is_quote_equivalent ov ask SELL) (active_asks st))"
    by (simp add: preamble_ratio f)
  show ?thesis
  proof (intro conjI impI)
    assume lt: "?r < target_inventory_fraction st"
    with c show e: "cancelled_ids intents = cancel_targets (\<lambda>ov. is_quote_equivalent ov bid BUY) (active_bids st)"
      by simp
    show "\<forall>oid \<in> set (cancelled_ids intents).
                \<exists>ov. (oid, ov) \<in> set (active_bids st) \<and> lifecycle ov = WORKING
                     \<and> \<not> is_quote_equivalent ov bid BUY"
      unfolding e using cancel_targets_sound by fast
    show "set (cancelled_ids intents) \<inter> set (dict_keys (active_asks st)) = {}"
      if "set (dict_keys (active_bids st)) \<inter> set (dict_keys (active_asks st)) = {}"
      using that cancel_targets_keys [of "\<lambda>ov. is_quote_equivalent ov bid BUY" "active_bids st"]
      unfolding e by blast
  next
    assume gt: "?r > target_inventory_fraction st"
    with c show e: "cancelled_ids intents = cancel_targets (\<lambda>ov. is_quote_equivalent ov ask SELL) (active_asks st)"
      by simp
    show "\<forall>oid \<in> set (cancelled_ids intents).
                \<exists>ov. (oid, ov) \<in> set (active_asks st) \<and> lifecycle ov = WORKING
                     \<and> \<not> is_quote_equivalent ov ask SELL"
      unfolding e using cancel_targets_sound by fast
    show "set (cancelled_ids intents) \<inter> set (dict_keys (active_bids st)) = {}"
      if "set (dict_keys (active_bids st)) \<inter> set (dict_keys (active_asks st)) = {}"
      using that cancel_targets_keys [of "\<lambda>ov. is_quote_equivalent ov ask SELL" "active_asks st"]
      unfolding e by blast
  qed
qed

section \<open>Witnesses for the market maker and the identifiers\<close>

theorem provide_never_crosses_witness:
  "determine_current_layer example_market_maker = ''PROVIDE''
   \<and> intents_of (mm_decide example_market_maker (example_full_view 10000 10))
       = Inr [PlaceOrderIntent 0 BUY LIMIT 10 (Some (899 / 100)),
              PlaceOrderIntent 1 SELL LIMIT 10 (Some (1101 / 100))]
   \<and> list_all (quoted_at (899 / 100) (1101 / 100))
        [PlaceOrderIntent 0 BUY LIMIT 10 (Some (899 / 100)),
         PlaceOrderIntent 1 SELL LIMIT 10 (Some (1101 / 100))]
   \<and> determine_current_layer (example_market_maker\<lparr>spread_size := 0\<rparr>) = ''PROVIDE''
   \<and> calculate_provide_prices (example_market_maker\<lparr>spread_size := 0\<rparr>) 0 = (1 / 100, 1 / 100)
   \<and> intents_of (mm_decide (example_market_maker\<lparr>spread_size := 0\<rparr>) (example_full_view 10000 0))
       = Inr []"
proof -
  let ?m = "example_market_maker" and ?v = "example_full_view 10000 10"
  let ?z = "example_market_maker\<lparr>spread_size := 0\<rparr>" and ?w = "example_full_view 10000 0"
  let ?is = "[PlaceOrderIntent 0 BUY LIMIT 10 (Some (899 / 100)),
              PlaceOrderIntent 1 SELL LIMIT 10 (Some (1101 / 100))]"
  have l: "determine_current_layer ?m = ''PROVIDE''"
    by (simp add: mm_defs example_defs)
  have "\<exists>st'. mm_decide ?m ?v = Inr (?is, st')"
    by (simp add: mm_defs example_defs)
  then obtain st' where d: "mm_decide ?m ?v = Inr (?is, st')" by blast
  have e: "estimate_price ?m ?v = Inr (Some 10, ?m\<lparr>mm_last_known_price := Some 10\<rparr>)"
    by (simp add: estimate_price_def example_defs)
  have pp: "calculate_provide_prices ?m 10 = (899 / 100, 1101 / 100)"
    by (simp add: calculate_provide_prices_def example_defs)
  from provide_never_crosses [OF l d e pp]
  have q: "list_all (quoted_at (899 / 100) (1101 / 100)) ?is" by blast
  have l0: "determine_current_layer ?z = ''PROVIDE''"
    by (simp add: mm_defs example_defs)
  have "\<exists>r. mm_decide ?z ?w = Inr r"
    by (simp add: mm_defs example_defs)
  then obtain intents0 st0 where d0: "mm_decide ?z ?w = Inr (intents0, st0)" by fastforce
  have e0: "estimate_price ?z ?w = Inr (Some 0, ?z\<lparr>mm_last_known_price := Some 0\<rparr>)"
    by (simp add: estimate_price_def example_defs)
  have pp0: "calculate_provide_prices ?z 0 = (1 / 100, 1 / 100)"
    by (simp add: calculate_provide_prices_def example_defs)
  from provide_never_crosses [OF l0 d0 e0 pp0] have "intents0 = []" by simp
  with d0 have i0: "intents_of (mm_decide ?z ?w) = Inr []" by (simp add: intents_of_def)
  from d have i: "intents_of (mm_decide ?m ?v) = Inr ?is" by (simp add: intents_of_def)
  from l i q l0 pp0 i0 show ?thesis by blast
qed

theorem stabilize_protects_supportive_side_witness:
  "determine_current_layer (example_cached_maker 1000 50 5) = ''STABILIZE''
   \<and> calculate_inventory_ratio (example_cached_maker 1000 50 5)
       > target_inventory_fraction (example_cached_maker 1000 50 5)
   \<and> set (dict_keys (active_bids (example_cached_maker 1000 50 5)))
       \<inter> set (dict_keys (active_asks (example_cached_maker 1000 50 5))) = {}
   \<and> intents_of (mm_decide (example_cached_maker 1000 50 5) (example_full_view 10000 10))
       = Inr [CancelOrderIntent 0 8,
              PlaceOrderIntent 1 BUY LIMIT 23 (Some (673 / 75)),
              PlaceOrderIntent 2 SELL LIMIT 3 (Some (1649 / 150))]
   \<and> set (cancelled_ids [CancelOrderIntent 0 8,
              PlaceOrderIntent 1 BUY LIMIT 23 (Some (673 / 75)),
              PlaceOrderIntent 2 SELL LIMIT 3 (Some (1649 / 150))])
       \<inter> set (dict_keys (active_bids (example_cached_maker 1000 50 5))) = {}"
proof -
  let ?m = "example_cached_maker 1000 50 5" and ?v = "example_full_view 10000 10"
  let ?is = "[CancelOrderIntent 0 8,
              PlaceOrderIntent 1 BUY LIMIT 23 (Some (673 / 75)),
              PlaceOrderIntent 2 SELL LIMIT 3 (Some (1649 / 150))]"
  have l: "determine_current_layer ?m = ''STABILIZE''"
    by (simp add: mm_defs example_defs)
  have r: "calculate_inventory_ratio ?m > target_inventory_fraction ?m"
    by (simp add: mm_defs example_defs)
  have k: "set (dict_keys (active_bids ?m)) \<inter> set (dict_keys (active_asks ?m)) = {}"
    by (simp add: dict_keys_def example_defs)
  have "\<exists>st'. mm_decide ?m ?v = Inr (?is, st')"
    by (simp add: mm_defs example_defs)
  then obtain st' where d: "mm_decide ?m ?v = Inr (?is, st')" by blast
  have e: "estimate_price ?m ?v = Inr (Some 10, ?m\<lparr>mm_last_known_price := Some 10\<rparr>)"
    by (simp add: estimate_price_def example_defs)
  have tp: "stabilize_target_prices ?m 10 (calculate_skew ?m (calculate_inventory_ratio ?m))
              = (673 / 75, 1649 / 150)"
    by (simp add: mm_defs example_defs)
  from stabilize_protects_supportive_side [OF l d e tp] r k
  have c: "set (cancelled_ids ?is) \<inter> set (dict_keys (active_bids ?m)) = {}" by blast
  from d have i: "intents_of (mm_decide ?m ?v) = Inr ?is" by (simp add: intents_of_def)
  from l r k i c show ?thesis by blast
qed

theorem intent_ids_round_trip_witness:
  "intents_of (mm_decide (example_cached_maker 1000 50 5) (example_full_view 10000 10))
       = Inr [CancelOrderIntent 0 8,
              PlaceOrderIntent 1 BUY LIMIT 23 (Some (673 / 75)),
              PlaceOrderIntent 2 SELL LIMIT 3 (Some (1649 / 150))]
   \<and> intents_of (vi_decide example_value_investor (example_full_view 20000 95))
       = Inr [PlaceOrderIntent 0 BUY LIMIT 10 (Some (1881 / 20))]
   \<and> intents_of (mt_decide example_momentum_trader (example_view 30000 thin_book))
       = Inr [PlaceOrderIntent 0 SELL MARKET 10 None]
   \<and> map intent_id_of [CancelOrderIntent 0 8,
              PlaceOrderIntent 1 BUY LIMIT 23 (Some (673 / 75)),
              PlaceOrderIntent 2 SELL LIMIT 3 (Some (1649 / 150))] = [0..2]
   \<and> set (dict_keys (order_results (fst (process_intents example_environment 10000
              [CancelOrderIntent 0 8,
               PlaceOrderIntent 1 BUY LIMIT 23 (Some (673 / 75)),
               PlaceOrderIntent 2 SELL LIMIT 3 (Some (1649 / 150))] 4))))
       \<union> set (dict_keys (deposit_results (fst (process_intents example_environment 10000
              [CancelOrderIntent 0 8,
               PlaceOrderIntent 1 BUY LIMIT 23 (Some (673 / 75)),
               PlaceOrderIntent 2 SELL LIMIT 3 (Some (1649 / 150))] 4))))
       \<subseteq> {0, 1, 2}
   \<and> (case (case mm_decide (example_cached_maker 1000 50 5) (example_full_view 10000 10) of
               Inl err \<Rightarrow> Inl err
             | Inr (issued, st) \<Rightarrow>
                 mm_update st (fst (process_intents example_environment 10000 issued 4))) of
         Inl err \<Rightarrow> None
       | Inr st \<Rightarrow> Some (mm_intent_id st)) = Some 3
   \<and> (case (case mm_decide (example_cached_maker 1000 50 5) (example_full_view 10000 10) of
               Inl err \<Rightarrow> Inl err
             | Inr (issued, st) \<Rightarrow>
                 mm_update st (fst (process_intents example_environment 10000 issued 4))) of
         Inl err \<Rightarrow> Inl err
       | Inr st \<Rightarrow> intents_of (mm_decide st (example_full_view 10000 10)))
       = Inr [CancelOrderIntent 3 8]
   \<and> map intent_id_of [CancelOrderIntent 3 8] = [3..3]"
proof -
  let ?m = "example_cached_maker 1000 50 5" and ?v = "example_full_view 10000 10"
  let ?is = "[CancelOrderIntent 0 8,
              PlaceOrderIntent 1 BUY LIMIT 23 (Some (673 / 75)),
              PlaceOrderIntent 2 SELL LIMIT 3 (Some (1649 / 150))]"
  let ?vi = "example_value_investor" and ?vv = "example_full_view 20000 95"
  let ?mt = "example_momentum_trader" and ?vm = "example_view 30000 thin_book"
  let ?T = "case mm_decide ?m ?v of
               Inl err \<Rightarrow> Inl err
             | Inr (issued, st) \<Rightarrow>
                 mm_update st (fst (process_intents example_environment 10000 issued 4))"
  let ?U = "case ?T of Inl err \<Rightarrow> Inl err | Inr st \<Rightarrow> intents_of (mm_decide st ?v)"
  have "\<exists>st'. mm_decide ?m ?v = Inr (?is, st')"
    by (simp add: mm_defs example_defs)
  then obtain st' where d: "mm_decide ?m ?v = Inr (?is, st')" by blast
  have "\<exists>st'. vi_decide ?vi ?vv = Inr ([PlaceOrderIntent 0 BUY LIMIT 10 (Some (1881 / 20))], st')"
    by (simp add: vi_defs example_defs)
  then obtain vi' where dv: "vi_decide ?vi ?vv = Inr ([PlaceOrderIntent 0 BUY LIMIT 10 (Some (1881 / 20))], vi')"
    by blast
  have "\<exists>st'. mt_decide ?mt ?vm = Inr ([PlaceOrderIntent 0 SELL MARKET 10 None], st')"
    by (simp add: mt_defs example_defs)
  then obtain mt' where dm: "mt_decide ?mt ?vm = Inr ([PlaceOrderIntent 0 SELL MARKET 10 None], mt')"
    by blast
  obtain fb e' where p: "process_intents example_environment 10000 ?is 4 = (fb, e')"
    by (cases "process_intents example_environment 10000 ?is 4")
  have c0: "mm_intent_id ?m = 0" by (simp add: example_defs)
  have u0: "?U = Inr [CancelOrderIntent 3 8]"
    by (simp add: mm_defs example_defs mm_update_def mm_cleanup_done_orders_def
        process_intents_def dict_del_def dict_set_def dict_keys_def intents_of_def)
  have tu: "?T = mm_update st' fb" by (simp add: d p)
  from u0 obtain st2 where t: "?T = Inr st2" by (cases ?T) simp_all
  with tu have u: "mm_update st' fb = Inr st2" by simp
  from u0 have "intents_of (mm_decide st2 ?v) = Inr [CancelOrderIntent 3 8]"
    unfolding t by simp
  then obtain st3 where d2: "mm_decide st2 ?v = Inr ([CancelOrderIntent 3 8], st3)"
    by (cases "mm_decide st2 ?v") (auto simp: intents_of_def)
  from intent_ids_round_trip [where mm = ?m and view = ?v and intents = ?is and mm' = st'
      and env = example_environment and aid = 10000 and e = 4 and feedback = fb and e' = e'
      and mmu = st2 and viewn = ?v and intentsn = "[CancelOrderIntent 3 8]" and mmn = st3]
    d p u d2
  have ids: "map intent_id_of ?is = [mm_intent_id ?m..mm_intent_id ?m + int (length ?is) - 1]"
    and cnt: "mm_intent_id st' = mm_intent_id ?m + int (length ?is)"
    and upd: "mm_intent_id st2 = mm_intent_id st'"
    and nxt: "map intent_id_of [CancelOrderIntent 3 8] =
        [mm_intent_id ?m + int (length ?is)
         ..mm_intent_id ?m + int (length ?is) + int (length [CancelOrderIntent 3 8]) - 1]"
    and keys: "set (dict_keys (order_results fb)) \<union> set (dict_keys (deposit_results fb))
                 \<subseteq> set (map intent_id_of ?is)"
    by blast+
  from ids have ids': "map intent_id_of ?is = [0..2]" unfolding c0 by simp
  from nxt have nxt': "map intent_id_of [CancelOrderIntent 3 8] = [3..3]" unfolding c0 by simp
  from cnt upd have "mm_intent_id st2 = 3" unfolding c0 by simp
  then have t3: "(case ?T of Inl err \<Rightarrow> None | Inr st \<Rightarrow> Some (mm_intent_id st)) = Some 3"
    unfolding t by simp
  from keys p have keys': "set (dict_keys (order_results (fst (process_intents example_environment 10000 ?is 4))))
       \<union> set (dict_keys (deposit_results (fst (process_intents example_environment 10000 ?is 4))))
       \<subseteq> {0, 1, 2}" by auto
  from d dv dm have i: "intents_of (mm_decide ?m ?v) = Inr ?is"
    "intents_of (vi_decide ?vi ?vv) = Inr [PlaceOrderIntent 0 BUY LIMIT 10 (Some (1881 / 20))]"
    "intents_of (mt_decide ?mt ?vm) = Inr [PlaceOrderIntent 0 SELL MARKET 10 None]"
    by (simp_all add: intents_of_def)
  from i ids' keys' t3 u0 nxt' show ?thesis by (intro conjI)
qed

section \<open>Feedback reconciliation\<close>

lemma dict_ok_set: "dict_ok d \<Longrightarrow> dict_ok (dict_set k v d)"
  by (simp add: dict_ok_def dict_keys_def dict_set_def distinct_update)

lemma dict_ok_filter: "dict_ok d \<Longrightarrow> dict_ok (filter P d)"
  by (simp add: dict_ok_def dict_keys_def distinct_map_filter)

lemma store_order_results_ok: "dict_ok d \<Longrightarrow> dict_ok (store_order_results ors d)"
  by (induction ors d rule: store_order_results.induct) (simp_all add: dict_ok_set)

lemma mm_store_order_results_ok:
  "dict_ok (active_bids st) \<Longrightarrow> dict_ok (active_asks st) \<Longrightarrow>
     dict_ok (active_bids (mm_store_order_results ors st))
     \<and> dict_ok (active_asks (mm_store_order_results ors st))"
proof (induction ors arbitrary: st)
  case Nil
  then show ?case by simp
next
  case (Cons a ors)
  obtain iid r where a: "a = (iid, r)" by (cases a)
  show ?case
  proof (cases r)
    case None
    with Cons show ?thesis by (simp add: a)
  next
    case (Some ov)
    show ?thesis
    proof (cases "side ov = BUY")
      case True
      let ?st = "st\<lparr>active_bids := dict_set (order_id ov) ov (active_bids st)\<rparr>"
      have "dict_ok (active_bids ?st)" "dict_ok (active_asks ?st)"
        using Cons.prems by (simp_all add: dict_ok_set)
      from Cons.IH [OF this] show ?thesis by (simp add: a Some True)
    next
      case False
      let ?st = "st\<lparr>active_asks := dict_set (order_id ov) ov (active_asks st)\<rparr>"
      have "dict_ok (active_bids ?st)" "dict_ok (active_asks ?st)"
        using Cons.prems by (simp_all add: dict_ok_set)
      from Cons.IH [OF this] show ?thesis by (simp add: a Some False)
    qed
  qed
qed

lemma delete_filter:
  "filter P (AList.delete k d) = filter (\<lambda>(k', v). k' \<noteq> k \<and> P (k', v)) d"
  by (induction d) (auto simp: AList.delete_eq)

lemma delete_as_filter: "AList.delete k d = filter (\<lambda>kv. fst kv \<noteq> k) d"
  by (induction d) (simp_all add: AList.delete_eq split_def)

lemma mm_cleanup_loop_result:
  "mm_cleanup_loop rest (d, f) = Inr (d', f') \<Longrightarrow>
     d' = filter (\<lambda>kv. fst kv \<notin> fst ` {x \<in> set rest. lifecycle (snd x) = DONE}) d"
proof (induction rest arbitrary: d f)
  case Nil
  then show ?case by simp
next
  case (Cons a rest)
  obtain oid ov where a: "a = (oid, ov)" by (cases a)
  show ?case
  proof (cases "lifecycle ov = DONE")
    case True
    with Cons.prems obtain d1 where d1: "dict_del oid d = Inr d1"
      and l: "mm_cleanup_loop rest (d1, if end_reason ov = Some FILLED then True else f) = Inr (d', f')"
      by (simp add: a split: sum.splits)
    from d1 have d1': "d1 = filter (\<lambda>kv. fst kv \<noteq> oid) d"
      by (simp add: dict_del_def delete_as_filter split: if_splits)
    have "{x \<in> set (a # rest). lifecycle (snd x) = DONE}
             = insert a {x \<in> set rest. lifecycle (snd x) = DONE}"
      using True by (auto simp: a)
    then have s: "fst ` {x \<in> set (a # rest). lifecycle (snd x) = DONE}
             = insert oid (fst ` {x \<in> set rest. lifecycle (snd x) = DONE})"
      by (simp add: a)
    from Cons.IH [OF l] show ?thesis
      unfolding d1' s filter_filter by (rule ssubst) (rule filter_cong, simp_all)
  next
    case False
    with Cons.prems have l: "mm_cleanup_loop rest (d, f) = Inr (d', f')" by (simp add: a)
    have s: "fst ` {x \<in> set (a # rest). lifecycle (snd x) = DONE}
             = fst ` {x \<in> set rest. lifecycle (snd x) = DONE}"
      using False by (auto simp: a)
    from Cons.IH [OF l] show ?thesis unfolding s .
  qed
qed

lemma mm_cleanup_loop_returns:
  "distinct (map fst rest) \<Longrightarrow>
   fst ` {x \<in> set rest. lifecycle (snd x) = DONE} \<subseteq> set (dict_keys d) \<Longrightarrow>
   \<exists>r. mm_cleanup_loop rest (d, f) = Inr r"
proof (induction rest arbitrary: d f)
  case Nil
  then show ?case by simp
next
  case (Cons a rest)
  obtain oid ov where a: "a = (oid, ov)" by (cases a)
  from Cons.prems(1) have dr: "distinct (map fst rest)" and nin: "oid \<notin> fst ` set rest"
    by (simp_all add: a)
  show ?case
  proof (cases "lifecycle ov = DONE")
    case True
    with Cons.prems(2) have k: "oid \<in> set (dict_keys d)" by (force simp: a)
    have "fst ` {x \<in> set rest. lifecycle (snd x) = DONE}
            \<subseteq> set (dict_keys (filter (\<lambda>kv. fst kv \<noteq> oid) d))"
    proof
      fix k assume kk: "k \<in> fst ` {x \<in> set rest. lifecycle (snd x) = DONE}"
      with Cons.prems(2) have "k \<in> set (dict_keys d)" by auto
      moreover from kk nin have "k \<noteq> oid" by auto
      ultimately show "k \<in> set (dict_keys (filter (\<lambda>kv. fst kv \<noteq> oid) d))"
        by (auto simp: dict_keys_def)
    qed
    from Cons.IH [OF dr this] show ?thesis
      using True k by (simp add: a dict_del_def delete_as_filter)
  next
    case False
    with Cons.prems(2) have "fst ` {x \<in> set rest. lifecycle (snd x) = DONE} \<subseteq> set (dict_keys d)"
      by (auto simp: a)
    from Cons.IH [OF dr this] show ?thesis using False by (simp add: a)
  qed
qed

lemma purge_self:
  assumes "dict_ok d"
  shows "filter (\<lambda>kv. fst kv \<notin> fst ` {x \<in> set d. lifecycle (snd x) = DONE}) d = purge_done d"
  unfolding purge_done_def
proof (rule filter_cong [OF refl])
  fix x assume x: "x \<in> set d"
  have u: "y = x" if "y \<in> set d" "fst y = fst x" for y
  proof -
    from assms have dd: "distinct (map fst d)" by (simp add: dict_ok_def dict_keys_def)
    from that have 1: "(fst x, snd y) \<in> set d" by (metis prod.collapse)
    from x have 2: "(fst x, snd x) \<in> set d" by simp
    from eq_key_imp_eq_value [OF dd 2 1] that(2) show ?thesis by (simp add: prod_eq_iff)
  qed
  show "(fst x \<notin> fst ` {x \<in> set d. lifecycle (snd x) = DONE})
       = (case x of (oid, ov) \<Rightarrow> lifecycle ov \<noteq> DONE)"
  proof (cases "lifecycle (snd x) = DONE")
    case True
    with x have "fst x \<in> fst ` {x \<in> set d. lifecycle (snd x) = DONE}" by blast
    with True show ?thesis by (simp add: split_def)
  next
    case False
    have "fst x \<notin> fst ` {x \<in> set d. lifecycle (snd x) = DONE}"
    proof
      assume "fst x \<in> fst ` {x \<in> set d. lifecycle (snd x) = DONE}"
      then obtain y where "y \<in> set d" "lifecycle (snd y) = DONE" "fst y = fst x" by auto
      with u [of y] False show False by simp
    qed
    with False show ?thesis by (simp add: split_def)
  qed
qed

lemma mm_cleanup_self:
  assumes "dict_ok d"
  shows "\<exists>f'. mm_cleanup_loop d (d, f) = Inr (purge_done d, f')"
proof -
  have "distinct (map fst d)" using assms by (simp add: dict_ok_def dict_keys_def)
  moreover have "fst ` {x \<in> set d. lifecycle (snd x) = DONE} \<subseteq> set (dict_keys d)"
    by (auto simp: dict_keys_def)
  ultimately obtain r where r: "mm_cleanup_loop d (d, f) = Inr r"
    using mm_cleanup_loop_returns by blast
  obtain d' f' where p: "r = (d', f')" by (cases r)
  from mm_cleanup_loop_result [OF r [unfolded p]] have "d' = purge_done d"
    by (simp only: purge_self [OF assms])
  with r p show ?thesis by blast
qed


lemma purge_done_no_done: "list_all (\<lambda>(oid, ov). lifecycle ov \<noteq> DONE) (purge_done d)"
  by (simp add: purge_done_def list_all_iff split_def)

lemma mt_cleanup_loop_mm:
  "mt_cleanup_loop rest d =
     (case mm_cleanup_loop rest (d, f) of Inl e \<Rightarrow> Inl e | Inr r \<Rightarrow> Inr (fst r))"
proof (induction rest arbitrary: d f)
  case Nil
  then show ?case by simp
next
  case (Cons a rest)
  obtain oid ov where a: "a = (oid, ov)" by (cases a)
  show ?case
  proof (cases "lifecycle ov = DONE")
    case True
    show ?thesis
    proof (cases "dict_del oid d")
      case (Inl e)
      with True show ?thesis by (simp add: a)
    next
      case (Inr d1)
      with True Cons.IH [of d1 "if end_reason ov = Some FILLED then True else f"]
      show ?thesis by (simp add: a)
    qed
  next
    case False
    with Cons.IH [of d f] show ?thesis by (simp add: a)
  qed
qed

lemma mt_cleanup_self:
  assumes "dict_ok d"
  shows "mt_cleanup_loop d d = Inr (purge_done d)"
proof -
  from mm_cleanup_self [OF assms, of False] obtain f'
    where "mm_cleanup_loop d (d, False) = Inr (purge_done d, f')" by blast
  then show ?thesis by (simp add: mt_cleanup_loop_mm [of d d False])
qed

lemma mm_cleanup_done_orders_ok:
  assumes "dict_ok (active_bids st)" and "dict_ok (active_asks st)"
  shows "\<exists>f. mm_cleanup_done_orders st =
           Inr (st\<lparr>active_bids := purge_done (active_bids st),
                    active_asks := purge_done (active_asks st),
                    order_filled_this_tick := f\<rparr>)"
proof -
  from mm_cleanup_self [OF assms(1), of "order_filled_this_tick st"] obtain f1
    where 1: "mm_cleanup_loop (active_bids st) (active_bids st, order_filled_this_tick st)
              = Inr (purge_done (active_bids st), f1)" by blast
  from mm_cleanup_self [OF assms(2), of f1] obtain f2
    where 2: "mm_cleanup_loop (active_asks st) (active_asks st, f1)
              = Inr (purge_done (active_asks st), f2)" by blast
  have "mm_cleanup_done_orders st =
           Inr (st\<lparr>active_bids := purge_done (active_bids st),
                    active_asks := purge_done (active_asks st),
                    order_filled_this_tick := f2\<rparr>)"
    by (simp add: mm_cleanup_done_orders_def 1 2)
  then show ?thesis by (rule exI)
qed

text \<open>
  C9. Python dictionaries have distinct keys; for caches that do (\<open>dict_ok\<close>), \<open>update\<close>
  returns for every feedback, whatever its result maps hold (\<open>None\<close> values included):
  the market maker's, the momentum trader's and the value investor's. After the market
  maker's \<open>update\<close>, \<open>active_bids\<close> and \<open>active_asks\<close> are the caches with the feedback's
  order views stored, without their \<open>DONE\<close> entries: no order view whose lifecycle is
  \<open>DONE\<close> is left in them. The same holds of the momentum trader's \<open>active_orders\<close>.
\<close>

theorem update_never_raises:
  assumes "dict_ok (active_bids mm)" and "dict_ok (active_asks mm)"
    and "dict_ok (active_orders mt)"
  shows "(\<exists>mm'. mm_update mm feedback = Inr mm'
            \<and> active_bids mm' = purge_done (active_bids
                 (mm_store_order_results (order_results feedback) (mm\<lparr>order_filled_this_tick := False\<rparr>)))
            \<and> active_asks mm' = purge_done (active_asks
                 (mm_store_order_results (order_results feedback) (mm\<lparr>order_filled_this_tick := False\<rparr>)))
            \<and> list_all (\<lambda>(oid, ov). lifecycle ov \<noteq> DONE) (active_bids mm')
            \<and> list_all (\<lambda>(oid, ov). lifecycle ov \<noteq> DONE) (active_asks mm')
            \<and> dict_ok (active_bids mm') \<and> dict_ok (active_asks mm'))
       \<and> (\<exists>mt'. mt_update mt feedback = Inr mt'
            \<and> active_orders mt' = purge_done
                 (store_order_results (order_results feedback) (active_orders mt))
            \<and> list_all (\<lambda>(oid, ov). lifecycle ov \<noteq> DONE) (active_orders mt'))
       \<and> (\<exists>vi'. vi_update vi feedback = Inr vi')"
proof -
  let ?s = "mm_store_order_results (order_results feedback) (mm\<lparr>order_filled_this_tick := False\<rparr>)"
  have "dict_ok (active_bids (mm\<lparr>order_filled_this_tick := False\<rparr>))"
    "dict_ok (active_asks (mm\<lparr>order_filled_this_tick := False\<rparr>))"
    using assms(1,2) by simp_all
  from mm_store_order_results_ok [OF this, of "order_results feedback"]
  have b: "dict_ok (active_bids ?s)" and a: "dict_ok (active_asks ?s)" by simp_all
  from mm_cleanup_done_orders_ok [OF b a] obtain f where
    u: "mm_update mm feedback =
          Inr (?s\<lparr>active_bids := purge_done (active_bids ?s),
                  active_asks := purge_done (active_asks ?s),
                  order_filled_this_tick := f\<rparr>)"
    unfolding mm_update_def by blast
  let ?r = "?s\<lparr>active_bids := purge_done (active_bids ?s),
                  active_asks := purge_done (active_asks ?s),
                  order_filled_this_tick := f\<rparr>"
  have 1: "active_bids ?r = purge_done (active_bids ?s)"
    and 2: "active_asks ?r = purge_done (active_asks ?s)" by simp_all
  have 3: "list_all (\<lambda>(oid, ov). lifecycle ov \<noteq> DONE) (active_bids ?r)"
    and 4: "list_all (\<lambda>(oid, ov). lifecycle ov \<noteq> DONE) (active_asks ?r)"
    unfolding 1 2 by (rule purge_done_no_done)+
  have 5: "dict_ok (active_bids ?r)" and 6: "dict_ok (active_asks ?r)"
    unfolding 1 2 purge_done_def using b a by (simp_all add: dict_ok_filter)
  from u 1 2 3 4 5 6 have mm: "\<exists>mm'. mm_update mm feedback = Inr mm'
            \<and> active_bids mm' = purge_done (active_bids ?s)
            \<and> active_asks mm' = purge_done (active_asks ?s)
            \<and> list_all (\<lambda>(oid, ov). lifecycle ov \<noteq> DONE) (active_bids mm')
            \<and> list_all (\<lambda>(oid, ov). lifecycle ov \<noteq> DONE) (active_asks mm')
            \<and> dict_ok (active_bids mm') \<and> dict_ok (active_asks mm')"
    by (intro exI [of _ ?r] conjI)
  let ?d = "store_order_results (order_results feedback) (active_orders mt)"
  have "dict_ok ?d" using assms(3) by (rule store_order_results_ok)
  from mt_cleanup_self [OF this]
  have v: "mt_update mt feedback = Inr (mt\<lparr>active_orders := purge_done ?d\<rparr>)"
    by (simp add: mt_update_def mt_cleanup_done_orders_def)
  have 7: "active_orders (mt\<lparr>active_orders := purge_done ?d\<rparr>) = purge_done ?d" by simp
  have 8: "list_all (\<lambda>(oid, ov). lifecycle ov \<noteq> DONE) (active_orders (mt\<lparr>active_orders := purge_done ?d\<rparr>))"
    unfolding 7 by (rule purge_done_no_done)
  from v 7 8 have mt: "\<exists>mt'. mt_update mt feedback = Inr mt'
            \<and> active_orders mt' = purge_done ?d
            \<and> list_all (\<lambda>(oid, ov). lifecycle ov \<noteq> DONE) (active_orders mt')"
    by (intro exI [of _ "mt\<lparr>active_orders := purge_done ?d\<rparr>"] conjI)
  have vi: "\<exists>vi'. vi_update vi feedback = Inr vi'" by (simp add: vi_update_def)
  from mm mt vi show ?thesis by (intro conjI)
qed

theorem update_never_raises_witness:
  "dict_ok (active_bids (example_cached_maker 1000 50 5))
   \<and> dict_ok (active_asks (example_cached_maker 1000 50 5))
   \<and> dict_ok (active_orders example_momentum_trader)
   \<and> (case mm_update (example_cached_maker 1000 50 5) example_feedback of
         Inl err \<Rightarrow> None
       | Inr st \<Rightarrow> Some (active_bids st, active_asks st))
       = Some ([(7, example_order 7 BUY WORKING 5)],
               [(8, example_order 8 SELL WORKING 20), (5, example_order 5 SELL WORKING 11)])
   \<and> (case mt_update example_momentum_trader example_feedback of
         Inl err \<Rightarrow> None
       | Inr st \<Rightarrow> Some (active_orders st))
       = Some [(5, example_order 5 SELL WORKING 11)]
   \<and> \<not> isl (vi_update example_value_investor example_feedback)"
proof -
  let ?m = "example_cached_maker 1000 50 5" and ?t = example_momentum_trader
  let ?f = example_feedback and ?i = example_value_investor
  have ok: "dict_ok (active_bids ?m)" "dict_ok (active_asks ?m)" "dict_ok (active_orders ?t)"
    by (simp_all add: dict_ok_def dict_keys_def example_defs)
  from update_never_raises [OF ok, of ?f ?i] obtain mm' mt' vi' where
    u: "mm_update ?m ?f = Inr mm'"
    and b: "active_bids mm' = purge_done (active_bids
              (mm_store_order_results (order_results ?f) (?m\<lparr>order_filled_this_tick := False\<rparr>)))"
    and a: "active_asks mm' = purge_done (active_asks
              (mm_store_order_results (order_results ?f) (?m\<lparr>order_filled_this_tick := False\<rparr>)))"
    and v: "mt_update ?t ?f = Inr mt'"
    and o: "active_orders mt' = purge_done (store_order_results (order_results ?f) (active_orders ?t))"
    and w: "vi_update ?i ?f = Inr vi'"
    by (elim conjE exE)
  have b': "active_bids mm' = [(7, example_order 7 BUY WORKING 5)]"
    unfolding b by (simp add: purge_done_def example_feedback_def example_defs dict_set_def)
  have a': "active_asks mm' = [(8, example_order 8 SELL WORKING 20), (5, example_order 5 SELL WORKING 11)]"
    unfolding a by (simp add: purge_done_def example_feedback_def example_defs dict_set_def)
  have o': "active_orders mt' = [(5, example_order 5 SELL WORKING 11)]"
    unfolding o by (simp add: purge_done_def example_feedback_def example_defs dict_set_def)
  show ?thesis using ok by (simp add: u v w a' b' o')
qed

section \<open>SimulationEngine: a turn without intents\<close>

lemma update_price_history_cache:
  "update_price_history st view = Inr st' \<Longrightarrow> active_orders st' = active_orders st"
  unfolding update_price_history_def Let_def
  by (auto split: sum.splits option.splits)

lemma mt_act_cache:
  "act_on_signal st sg view = Inr (intents, st') \<Longrightarrow> active_orders st' = active_orders st"
  unfolding act_on_signal_def enter_long_def enter_short_def exit_position_def Let_def
    mt_next_intent_id_def
  by (auto split: if_splits sum.splits option.splits prod.splits)

lemma mt_decide_cache:
  "mt_decide st view = Inr (intents, st') \<Longrightarrow> active_orders st' = active_orders st"
  unfolding mt_decide_def Let_def
  by (auto split: if_splits sum.splits dest!: update_price_history_cache mt_act_cache)

lemma estimate_market_price_cache:
  "estimate_market_price st view = Inr (p, st') \<Longrightarrow>
     active_deposits st' = active_deposits st \<and> pending_orders st' = pending_orders st"
  unfolding estimate_market_price_def
  by (auto split: option.splits)

lemma update_beliefs_cache:
  "update_beliefs st view = Inr st' \<Longrightarrow>
     active_deposits st' = active_deposits st \<and> pending_orders st' = pending_orders st"
  unfolding update_beliefs_def update_perceived_pnl_def update_optimism_def Let_def
  by (auto split: option.splits prod.splits sum.splits if_splits dest!: estimate_market_price_cache)

lemma select_intention_cache:
  "select_intention st view = Inr st' \<Longrightarrow>
     active_deposits st' = active_deposits st \<and> pending_orders st' = pending_orders st"
  unfolding select_intention_def calculate_mispricing_def Let_def
  by (auto split: option.splits prod.splits sum.splits if_splits dest!: estimate_market_price_cache)

lemma execute_intention_cache:
  "execute_intention st view = Inr (intents, st') \<Longrightarrow>
     active_deposits st' = active_deposits st \<and> pending_orders st' = pending_orders st"
  unfolding execute_intention_def execute_wait_def execute_accumulate_def execute_distribute_def
    execute_park_capital_def Let_def vi_next_intent_id_def
  by (auto split: Intention.splits option.splits prod.splits sum.splits if_splits
      dest!: estimate_market_price_cache)

lemma vi_decide_cache:
  "vi_decide st view = Inr (intents, st') \<Longrightarrow>
     active_deposits st' = active_deposits st \<and> pending_orders st' = pending_orders st"
  unfolding vi_decide_def
  by (auto split: if_splits sum.splits
      dest!: update_beliefs_cache select_intention_cache execute_intention_cache)

lemma mm_decide_cache:
  assumes "mm_decide st view = Inr (intents, st')"
  shows "active_bids st' = active_bids st \<and> active_asks st' = active_asks st
         \<and> order_filled_this_tick st' = order_filled_this_tick st"
  using mm_decide_issues [OF assms] by (simp add: mm_issues_def mm_frame_def)


text \<open>
  C10. For the view the engine builds for an agent: when \<open>decide\<close> returns the empty list,
  the body of \<open>_agent_loop\<close> ends with the agent as \<open>decide\<close> left it and the market as
  it was: nothing is dispatched and \<open>update\<close> is not called. The state \<open>update\<close> writes is
  then what it was before the tick: the market maker's \<open>active_bids\<close>, \<open>active_asks\<close> and
  \<open>order_filled_this_tick\<close>, the momentum trader's \<open>active_orders\<close>, the value investor's
  \<open>active_deposits\<close> and \<open>pending_orders\<close>.
\<close>

theorem empty_intents_skip_update:
  assumes "view = \<lparr>agent_id = aid, timestamp = now, macro_tick = macro, micro_tick = micro,
                    market_data_view = MARKET_DATA_VIEW sim_data,
                    economy_insight_view =
                      (if is_value_investor agent \<or> is_market_maker agent
                       then ECONOMY_INSIGHT_VIEW sim_data else None)\<rparr>"
    and "agent_decide nt (account_view_of env e aid) agent view = Inr ([], agent')"
  shows "agent_step env nt sim_data now macro micro (aid, agent) e = Inr (agent', e)
     \<and> (\<forall>mm. agent = MarketMakerAgent mm \<longrightarrow>
          (\<exists>mm'. agent' = MarketMakerAgent mm' \<and> active_bids mm' = active_bids mm
             \<and> active_asks mm' = active_asks mm
             \<and> order_filled_this_tick mm' = order_filled_this_tick mm))
     \<and> (\<forall>mt. agent = MomentumTraderAgent mt \<longrightarrow>
          (\<exists>mt'. agent' = MomentumTraderAgent mt' \<and> active_orders mt' = active_orders mt))
     \<and> (\<forall>vi. agent = ValueInvestorAgent vi \<longrightarrow>
          (\<exists>vi'. agent' = ValueInvestorAgent vi' \<and> active_deposits vi' = active_deposits vi
             \<and> pending_orders vi' = pending_orders vi))"
proof -
  have 1: "agent_step env nt sim_data now macro micro (aid, agent) e = Inr (agent', e)"
    using assms(2) unfolding assms(1) agent_step_def by (simp add: Let_def)
  have 2: "\<exists>mm'. agent' = MarketMakerAgent mm' \<and> active_bids mm' = active_bids mm
             \<and> active_asks mm' = active_asks mm
             \<and> order_filled_this_tick mm' = order_filled_this_tick mm"
    if "agent = MarketMakerAgent mm" for mm
  proof -
    from assms(2) [unfolded that] obtain mm' where
      d: "mm_decide (mm\<lparr>mm_account_view := account_view_of env e aid\<rparr>) view = Inr ([], mm')"
      and a: "agent' = MarketMakerAgent mm'"
      by (auto split: sum.splits)
    from mm_decide_cache [OF d] a show ?thesis by simp
  qed
  have 3: "\<exists>mt'. agent' = MomentumTraderAgent mt' \<and> active_orders mt' = active_orders mt"
    if "agent = MomentumTraderAgent mt" for mt
  proof -
    from assms(2) [unfolded that] obtain mt' where
      d: "mt_decide (mt\<lparr>mt_account_view := account_view_of env e aid\<rparr>) view = Inr ([], mt')"
      and a: "agent' = MomentumTraderAgent mt'"
      by (auto split: sum.splits)
    from mt_decide_cache [OF d] a show ?thesis by simp
  qed
  have 4: "\<exists>vi'. agent' = ValueInvestorAgent vi' \<and> active_deposits vi' = active_deposits vi
             \<and> pending_orders vi' = pending_orders vi"
    if "agent = ValueInvestorAgent vi" for vi
  proof -
    from assms(2) [unfolded that] obtain vi' where
      d: "vi_decide (vi\<lparr>vi_account_view := account_view_of env e aid\<rparr>) view = Inr ([], vi')"
      and a: "agent' = ValueInvestorAgent vi'"
      by (auto split: sum.splits)
    from vi_decide_cache [OF d] a show ?thesis by simp
  qed
  from 1 2 3 4 show ?thesis by blast
qed

theorem empty_intents_skip_update_witness:
  "(case agent_step example_poor_environment example_noise_trader example_sim_data 0 0 1
           (10000, MarketMakerAgent example_idle_maker) 4 of
      Inl err \<Rightarrow> None
    | Inr (agent, e) \<Rightarrow>
        (case agent of
           MarketMakerAgent st \<Rightarrow> Some (active_bids st, active_asks st, order_filled_this_tick st, e)
         | _ \<Rightarrow> None))
     = Some ([], [(9, (example_order 9 SELL DONE 11)\<lparr>end_reason := Some CANCELLED\<rparr>)], True, 4)
   \<and> (case mm_update example_idle_maker
              \<lparr>fb_agent_id = 10000, order_results = [], deposit_results = []\<rparr> of
        Inl err \<Rightarrow> None
      | Inr st \<Rightarrow> Some (active_bids st, active_asks st, order_filled_this_tick st))
     = Some ([], [], False)"
proof -
  let ?m = example_idle_maker and ?e = example_poor_environment
  let ?view = "\<lparr>agent_id = 10000, timestamp = 0, macro_tick = 0, micro_tick = 1,
                 market_data_view = MARKET_DATA_VIEW example_sim_data,
                 economy_insight_view =
                   (if is_value_investor (MarketMakerAgent ?m :: unit Agent)
                       \<or> is_market_maker (MarketMakerAgent ?m :: unit Agent)
                    then ECONOMY_INSIGHT_VIEW example_sim_data else None)\<rparr>"
  have "\<exists>st'. mm_decide (?m\<lparr>mm_account_view := \<lparr>cash = 1, shares = 0\<rparr>\<rparr>) ?view = Inr ([], st')"
    by (simp add: mm_defs example_defs example_idle_maker_def)
  then obtain st' where
    d: "mm_decide (?m\<lparr>mm_account_view := \<lparr>cash = 1, shares = 0\<rparr>\<rparr>) ?view = Inr ([], st')"
    by blast
  have av: "account_view_of ?e 4 10000 = \<lparr>cash = 1, shares = 0\<rparr>"
    by (simp add: example_poor_environment_def)
  have dec: "agent_decide example_noise_trader (account_view_of ?e 4 10000) (MarketMakerAgent ?m) ?view
             = Inr ([], MarketMakerAgent st')"
    unfolding av using d by simp
  from empty_intents_skip_update [OF refl dec]
  have step: "agent_step ?e example_noise_trader example_sim_data 0 0 1 (10000, MarketMakerAgent ?m) 4
              = Inr (MarketMakerAgent st', 4)"
    and fr: "active_bids st' = active_bids ?m" "active_asks st' = active_asks ?m"
      "order_filled_this_tick st' = order_filled_this_tick ?m"
    by auto
  have c: "active_bids ?m = []"
    "active_asks ?m = [(9, (example_order 9 SELL DONE 11)\<lparr>end_reason := Some CANCELLED\<rparr>)]"
    "order_filled_this_tick ?m = True"
    by (simp_all add: example_idle_maker_def example_market_maker_def)
  have u: "(case mm_update ?m \<lparr>fb_agent_id = 10000, order_results = [], deposit_results = []\<rparr> of
        Inl err \<Rightarrow> None
      | Inr st \<Rightarrow> Some (active_bids st, active_asks st, order_filled_this_tick st))
     = Some ([], [], False)"
    by (simp add: mm_update_def mm_cleanup_done_orders_def dict_del_def dict_keys_def
        example_idle_maker_def example_defs)
  show ?thesis unfolding step by (simp add: fr c u)
qed

section \<open>ValueInvestor: belief and intention\<close>













end
